theory Spec2Isabelle
  imports Main "HOL-Library.Word" "HOL-Library.Monad_Syntax"
begin

unbundle bit_operations_syntax

section \<open>Memory model\<close>

text \<open>
  The C code works on raw buffers that it reads both bytewise and, through pointer
  casts, as 32-bit integers. A buffer is a list of bytes; an \<open>int\<close> or
  \<open>unsigned int\<close> is a 32-bit word. The casts are modelled for a little-endian
  host (the byte at the lowest address is the least significant one), which is what
  the byte swaps of the source compensate for. An access outside a buffer is undefined
  behaviour in C: the functions below return \<open>None\<close> for it.
\<close>

type_synonym byte = "8 word"
type_synonym u32 = "32 word"

definition load32 :: "byte list \<Rightarrow> nat \<Rightarrow> u32" where
  "load32 m a = ucast (m ! a) OR push_bit 8 (ucast (m ! (a + 1)))
                OR push_bit 16 (ucast (m ! (a + 2))) OR push_bit 24 (ucast (m ! (a + 3)))"

definition int_bytes :: "u32 \<Rightarrow> byte list" where
  "int_bytes w = [ucast w, ucast (drop_bit 8 w), ucast (drop_bit 16 w), ucast (drop_bit 24 w)]"

definition poke :: "byte list \<Rightarrow> nat \<Rightarrow> byte list \<Rightarrow> byte list" where
  "poke m a bs = take a m @ bs @ drop (a + length bs) m"

definition store32 :: "byte list \<Rightarrow> nat \<Rightarrow> u32 \<Rightarrow> byte list" where
  "store32 m a w = poke m a (int_bytes w)"

text \<open>The loop \<open>for (c = 0; c < n; c++) dst[doff + c] = src[soff + c]\<close> (and \<open>memcpy\<close>).\<close>

definition copy_in :: "byte list \<Rightarrow> nat \<Rightarrow> byte list \<Rightarrow> nat \<Rightarrow> nat \<Rightarrow> byte list option" where
  "copy_in dst doff src soff n =
     (if n = 0 then Some dst
      else if doff + n \<le> length dst \<and> soff + n \<le> length src
      then Some (poke dst doff (take n (drop soff src)))
      else None)"

definition mtpz_bswap32 :: "u32 \<Rightarrow> u32" where
  "mtpz_bswap32 x = drop_bit 24 x OR (drop_bit 8 x AND 0x0000ff00)
                    OR (push_bit 8 x AND 0x00ff0000) OR push_bit 24 x"

section \<open>Hash engine\<close>

text \<open>
  The hash state is the 92-byte block of \<open>mtpz_hash_init_state\<close>: a 64-byte input
  buffer followed by seven ints (\<open>state_box\<close>), of which number 5 is
  \<open>MTPZ_HASHSTATE_84\<close> and number 6 is \<open>MTPZ_HASHSTATE_88\<close>.
\<close>

definition mtpz_hash_init_state :: "byte list" where
  "mtpz_hash_init_state = replicate 92 0"

definition state_box :: "byte list \<Rightarrow> nat \<Rightarrow> u32" where
  "state_box st k = load32 st (64 + 4 * k)"

definition set_state_box :: "byte list \<Rightarrow> nat \<Rightarrow> u32 \<Rightarrow> byte list" where
  "set_state_box st k w = store32 st (64 + 4 * k) w"

definition mtpz_hash_reset_state :: "byte list \<Rightarrow> byte list" where
  "mtpz_hash_reset_state st =
     set_state_box (set_state_box (set_state_box (set_state_box (set_state_box
       (set_state_box (set_state_box st 0 0x67452301) 1 0xefcdab89) 2 0x98badcfe)
         3 0x10325476) 4 0xc3d2e1f0) 5 0) 6 0"

definition mtpz_hash_rotate_left :: "u32 \<Rightarrow> nat \<Rightarrow> u32" where
  "mtpz_hash_rotate_left x n = push_bit n x OR drop_bit (32 - n) x"

definition mtpz_hash_f :: "nat \<Rightarrow> u32 \<Rightarrow> u32 \<Rightarrow> u32 \<Rightarrow> u32" where
  "mtpz_hash_f s x y z =
     (if s = 0 then (x AND y) XOR (NOT x AND z)
      else if s = 1 then x XOR y XOR z
      else if s = 2 then (x AND y) XOR (x AND z) XOR (y AND z)
      else if s = 3 then x XOR y XOR z
      else 0)"

definition hash_K :: "u32 list" where
  "hash_K = [0x5a827999, 0x6ed9eba1, 0x8f1bbcdc, 0xca62c1d6]"

text \<open>The message schedule: \<open>W[0..15]\<close> from the block, then \<open>W[16..79]\<close>.\<close>

fun hash_schedule :: "nat \<Rightarrow> u32 list \<Rightarrow> u32 list" where
  "hash_schedule 0 W = W"
| "hash_schedule (Suc n) W =
     (let i = length W
      in hash_schedule n (W @ [mtpz_hash_rotate_left
           (W ! (i - 3) XOR W ! (i - 8) XOR W ! (i - 14) XOR W ! (i - 16)) 1]))"

definition hash_round :: "u32 list \<Rightarrow> u32 \<times> u32 \<times> u32 \<times> u32 \<times> u32 \<Rightarrow> nat
    \<Rightarrow> u32 \<times> u32 \<times> u32 \<times> u32 \<times> u32" where
  "hash_round W v i =
     (case v of (a, b, c, d, e) \<Rightarrow>
        let s = i div 20;
            T = mtpz_hash_rotate_left a 5 + mtpz_hash_f s b c d + e + hash_K ! s + W ! i
        in (T, a, mtpz_hash_rotate_left b 30, c, d))"

definition mtpz_hash_compute_hash :: "byte list \<Rightarrow> byte list \<Rightarrow> nat \<Rightarrow> byte list" where
  "mtpz_hash_compute_hash st msg len =
     (if len \<noteq> 64 then st
      else
        let W = hash_schedule 64 (map (\<lambda>i. mtpz_bswap32 (load32 msg (4 * i))) [0..<16]);
            v = foldl (hash_round W)
                  (state_box st 0, state_box st 1, state_box st 2, state_box st 3, state_box st 4)
                  [0..<80]
        in case v of (a, b, c, d, e) \<Rightarrow>
             set_state_box (set_state_box (set_state_box (set_state_box (set_state_box st
               0 (state_box st 0 + a)) 1 (state_box st 1 + b)) 2 (state_box st 2 + c))
               3 (state_box st 3 + d)) 4 (state_box st 4 + e))"

text \<open>The loop \<open>while (i > 63)\<close> of \<open>mtpz_hash_transform_hash\<close>; \<open>i\<close> and \<open>j\<close> are ints.\<close>

function hash_blocks :: "byte list \<Rightarrow> byte list \<Rightarrow> u32 \<Rightarrow> u32 \<Rightarrow> (byte list \<times> u32 \<times> u32) option" where
  "hash_blocks st msg i j =
     (if 63 <s i then
        (if unat j + 64 \<le> length msg
         then hash_blocks (mtpz_hash_compute_hash st (take 64 (drop (unat j) msg)) 64) msg (i - 64) (j + 64)
         else None)
      else Some (st, i, j))"
  by pat_completeness auto
termination
proof (relation "measure (\<lambda>(st, msg, i, j). nat (sint i))")
  show "wf (measure (\<lambda>(st, msg, i, j). nat (sint i)))" by simp
next
  fix st msg :: "byte list" and i j :: u32
  assume a: "63 <s i"
  then have "63 < sint i" by (simp add: word_sless_alt)
  moreover have "sint (i - 64) = sint i - 64"
  proof -
    have "sint i < 2 ^ 31" using sint_lt [of i] by simp
    with \<open>63 < sint i\<close> show ?thesis
      by (simp add: sint_word_ariths signed_take_bit_int_eq_self)
  qed
  ultimately show "((mtpz_hash_compute_hash st (take 64 (drop (unat j) msg)) 64, msg, i - 64, j + 64), (st, msg, i, j))
       \<in> measure (\<lambda>(st, msg, i, j). nat (sint i))"
    by simp
qed

declare hash_blocks.simps [simp del]


text \<open>
  \<open>mtpz_hash_transform_hash(state, msg, len)\<close>. The comparison \<open>len > v5\<close> is one
  of two ints, so it is the signed one. The sum \<open>len + state_box[MTPZ_HASHSTATE_88]\<close> is
  an int addition, which C defines only while it fits an int; the model computes it on
  32-bit words, and what is proved below about the counter is proved for sums that fit.
\<close>

definition mtpz_hash_transform_hash :: "byte list \<Rightarrow> byte list \<Rightarrow> u32 \<Rightarrow> byte list option" where
  "mtpz_hash_transform_hash state msg len =
     (let x = state_box state 6 AND 0x3F;
          v5 = len + state_box state 6;
          st1 = set_state_box state 6 v5;
          st2 = (if v5 <s len then set_state_box st1 5 (state_box st1 5 + 1) else st1)
      in do {
        (st3, i, j) \<leftarrow>
          (if x \<noteq> 0 \<and> 0x3F <s len + x then do {
             st' \<leftarrow> copy_in st2 (unat x) msg 0 (unat (64 - x));
             Some (mtpz_hash_compute_hash st' (take 64 st') 64, len + x - 64, 64 - x)
           } else Some (st2, len, 0));
        (st4, i', j') \<leftarrow> hash_blocks st3 msg i j;
        if i' \<noteq> 0 then copy_in st4 (unat x) msg (unat j') (nat (sint i')) else Some st4
      })"

text \<open>
  \<open>mtpz_hash_finalize_hash(state, out)\<close> returns the new state and the 20 bytes
  written to \<open>out\<close>. \<open>state_box[MTPZ_HASHSTATE_88] >> 29\<close> shifts an int, hence
  arithmetically.
\<close>

definition mtpz_hash_finalize_hash :: "byte list \<Rightarrow> (byte list \<times> byte list) option" where
  "mtpz_hash_finalize_hash state =
     (let v2 = 64 - (state_box state 6 AND 0x3F);
          v2 = (if v2 \<le>s 8 then v2 + 64 else v2);
          v5 = poke (replicate 72 0) 0 [0x80];
          v6 = 8 * state_box state 5 OR signed_drop_bit 29 (state_box state 6);
          v7 = 8 * state_box state 6;
          v5 = store32 v5 (unat v2 - 8) (mtpz_bswap32 v6);
          v5 = store32 v5 (unat v2 - 4) (mtpz_bswap32 v7)
      in do {
        st \<leftarrow> mtpz_hash_transform_hash state v5 v2;
        let out = concat (map (\<lambda>k. int_bytes (mtpz_bswap32 (state_box st k))) [0..<5]);
        Some (mtpz_hash_reset_state (poke st 0 (replicate 64 0)), out)
      })"

text \<open>
  \<open>mtpz_hash_custom6A5DC(state, msg, len, a4)\<close>: the loop \<open>for (i = 0; i < v11; i++)\<close>
  as a recursion on the number \<open>n\<close> of rounds still to run; \<open>v13\<close> is the output
  buffer and \<open>v5\<close> the scratch copy of the message with four more bytes.
\<close>

fun custom6A5DC_loop :: "nat \<Rightarrow> u32 \<Rightarrow> byte list \<Rightarrow> byte list \<Rightarrow> nat \<Rightarrow> byte list
    \<Rightarrow> (byte list \<times> byte list) option" where
  "custom6A5DC_loop 0 i state v5 len v13 = Some (state, v13)"
| "custom6A5DC_loop (Suc n) i state v5 len v13 =
     (let k = mtpz_bswap32 i;
          v5 = store32 v5 len k
      in do {
        st \<leftarrow> mtpz_hash_transform_hash (mtpz_hash_reset_state state) v5 (word_of_nat (len + 4));
        (st, out) \<leftarrow> mtpz_hash_finalize_hash st;
        custom6A5DC_loop n (i + 1) st v5 len (poke v13 (unat i * 20) out)
      })"

text \<open>
  \<open>len\<close> and \<open>a4\<close> are ints, and \<open>a4 / 20\<close> is the C division, which truncates
  towards zero. The sizes \<open>v11 * 20\<close> and \<open>len + 4\<close> are computed in int, so the
  model is undefined where they do not fit, where one of them is negative, and where
  \<open>msg\<close> has fewer than \<open>len\<close> bytes to copy.
\<close>

definition mtpz_hash_custom6A5DC :: "byte list \<Rightarrow> byte list \<Rightarrow> int \<Rightarrow> int
    \<Rightarrow> (byte list \<times> byte list) option" where
  "mtpz_hash_custom6A5DC state msg len a4 =
     (let v11 = (if a4 < 0 then - ((- a4) div 20) else a4 div 20) + 1
      in if v11 < 0 \<or> len < 0 \<or> 2 ^ 31 \<le> v11 * 20 \<or> 2 ^ 31 \<le> len + 4 \<or> int (length msg) < len
         then None
         else
           let v13 = replicate (nat (v11 * 20)) 0;
               v5 = poke (replicate (nat (len + 4)) 0) 0 (take (nat len) msg)
           in custom6A5DC_loop (nat v11) 0 state v5 (nat len) v13)"

text \<open>One hashing session, as every caller runs it: reset, absorb, finalise.\<close>

definition hash_session :: "byte list \<Rightarrow> byte list \<Rightarrow> (byte list \<times> byte list) option" where
  "hash_session state msg =
     do {
       st \<leftarrow> mtpz_hash_transform_hash (mtpz_hash_reset_state state) msg (word_of_nat (length msg));
       mtpz_hash_finalize_hash st
     }"

text \<open>
  The mask-generation function as the specification words it: for \<open>i = 0, 1, \<dots>\<close>
  reset the state, absorb \<open>seed || bswap32(i)\<close> and finalise into the next 20 bytes
  of the output. \<open>mgf_rounds n i\<close> runs \<open>n\<close> such rounds from counter \<open>i\<close>.
\<close>

fun mgf_rounds :: "nat \<Rightarrow> u32 \<Rightarrow> byte list \<Rightarrow> byte list \<Rightarrow> (byte list \<times> byte list) option" where
  "mgf_rounds 0 i state seed = Some (state, [])"
| "mgf_rounds (Suc n) i state seed =
     do {
       (st, out) \<leftarrow> hash_session state (seed @ int_bytes (mtpz_bswap32 i));
       (st', outs) \<leftarrow> mgf_rounds n (i + 1) st seed;
       Some (st', out @ outs)
     }"

section \<open>AES constant tables\<close>

text \<open>The tables of the source, entry by entry (written in decimal).\<close>

definition mtpz_aes_rcon :: "byte list" where
  "mtpz_aes_rcon = [1, 2, 4, 8, 16, 32, 64, 128, 27, 54, 108, 216, 171, 77, 154]"

definition mtpz_aes_sbox :: "byte list" where
  "mtpz_aes_sbox = [99, 124, 119, 123, 242, 107, 111, 197, 48, 1, 103, 43, 254, 215, 171, 118,
     202, 130, 201, 125, 250, 89, 71, 240, 173, 212, 162, 175, 156, 164, 114, 192,
     183, 253, 147, 38, 54, 63, 247, 204, 52, 165, 229, 241, 113, 216, 49, 21,
     4, 199, 35, 195, 24, 150, 5, 154, 7, 18, 128, 226, 235, 39, 178, 117,
     9, 131, 44, 26, 27, 110, 90, 160, 82, 59, 214, 179, 41, 227, 47, 132,
     83, 209, 0, 237, 32, 252, 177, 91, 106, 203, 190, 57, 74, 76, 88, 207,
     208, 239, 170, 251, 67, 77, 51, 133, 69, 249, 2, 127, 80, 60, 159, 168,
     81, 163, 64, 143, 146, 157, 56, 245, 188, 182, 218, 33, 16, 255, 243, 210,
     205, 12, 19, 236, 95, 151, 68, 23, 196, 167, 126, 61, 100, 93, 25, 115,
     96, 129, 79, 220, 34, 42, 144, 136, 70, 238, 184, 20, 222, 94, 11, 219,
     224, 50, 58, 10, 73, 6, 36, 92, 194, 211, 172, 98, 145, 149, 228, 121,
     231, 200, 55, 109, 141, 213, 78, 169, 108, 86, 244, 234, 101, 122, 174, 8,
     186, 120, 37, 46, 28, 166, 180, 198, 232, 221, 116, 31, 75, 189, 139, 138,
     112, 62, 181, 102, 72, 3, 246, 14, 97, 53, 87, 185, 134, 193, 29, 158,
     225, 248, 152, 17, 105, 217, 142, 148, 155, 30, 135, 233, 206, 85, 40, 223,
     140, 161, 137, 13, 191, 230, 66, 104, 65, 153, 45, 15, 176, 84, 187, 22]"

definition mtpz_aes_invsbox :: "byte list" where
  "mtpz_aes_invsbox = [82, 9, 106, 213, 48, 54, 165, 56, 191, 64, 163, 158, 129, 243, 215, 251,
     124, 227, 57, 130, 155, 47, 255, 135, 52, 142, 67, 68, 196, 222, 233, 203,
     84, 123, 148, 50, 166, 194, 35, 61, 238, 76, 149, 11, 66, 250, 195, 78,
     8, 46, 161, 102, 40, 217, 36, 178, 118, 91, 162, 73, 109, 139, 209, 37,
     114, 248, 246, 100, 134, 104, 152, 22, 212, 164, 92, 204, 93, 101, 182, 146,
     108, 112, 72, 80, 253, 237, 185, 218, 94, 21, 70, 87, 167, 141, 157, 132,
     144, 216, 171, 0, 140, 188, 211, 10, 247, 228, 88, 5, 184, 179, 69, 6,
     208, 44, 30, 143, 202, 63, 15, 2, 193, 175, 189, 3, 1, 19, 138, 107,
     58, 145, 17, 65, 79, 103, 220, 234, 151, 242, 207, 206, 240, 180, 230, 115,
     150, 172, 116, 34, 231, 173, 53, 133, 226, 249, 55, 232, 28, 117, 223, 110,
     71, 241, 26, 113, 29, 41, 197, 137, 111, 183, 98, 14, 170, 24, 190, 27,
     252, 86, 62, 75, 198, 210, 121, 32, 154, 219, 192, 254, 120, 205, 90, 244,
     31, 221, 168, 51, 136, 7, 199, 49, 177, 18, 16, 89, 39, 128, 236, 95,
     96, 81, 127, 169, 25, 181, 74, 13, 45, 229, 122, 159, 147, 201, 156, 239,
     160, 224, 59, 77, 174, 42, 245, 176, 200, 235, 187, 60, 131, 83, 153, 97,
     23, 43, 4, 126, 186, 119, 214, 38, 225, 105, 20, 99, 85, 33, 12, 125]"

definition mtpz_aes_ft1 :: "u32 list" where
  "mtpz_aes_ft1 = [1667474886, 2088535288, 2004326894, 2071694838, 4075949567, 1802223062, 1869591006, 3318043793,
     808472672, 16843522, 1734846926, 724270422, 4278065639, 3621216949, 2880169549, 1987484396,
     3402253711, 2189597983, 3385409673, 2105378810, 4210693615, 1499065266, 1195886990, 4042263547,
     2913856577, 3570689971, 2728590687, 2947541573, 2627518243, 2762274643, 1920112356, 3233831835,
     3082273397, 4261223649, 2475929149, 640051788, 909531756, 1061110142, 4160160501, 3435941763,
     875846760, 2779116625, 3857003729, 4059105529, 1903268834, 3638064043, 825316194, 353713962,
     67374088, 3351728789, 589522246, 3284360861, 404236336, 2526454071, 84217610, 2593830191,
     117901582, 303183396, 2155911963, 3806477791, 3958056653, 656894286, 2998062463, 1970642922,
     151591698, 2206440989, 741110872, 437923380, 454765878, 1852748508, 1515908788, 2694904667,
     1381168804, 993742198, 3604373943, 3014905469, 690584402, 3823320797, 791638366, 2223281939,
     1398011302, 3520161977, 0, 3991743681, 538992704, 4244381667, 2981218425, 1532751286,
     1785380564, 3419096717, 3200178535, 960056178, 1246420628, 1280103576, 1482221744, 3486468741,
     3503319995, 4025428677, 2863326543, 4227536621, 1128514950, 1296947098, 859002214, 2240123921,
     1162203018, 4193849577, 33687044, 2139062782, 1347481760, 1010582648, 2678045221, 2829640523,
     1364325282, 2745433693, 1077985408, 2408548869, 2459086143, 2644360225, 943212656, 4126475505,
     3166494563, 3065430391, 3671750063, 555836226, 269496352, 4294908645, 4092792573, 3537006015,
     3452783745, 202118168, 320025894, 3974901699, 1600119230, 2543297077, 1145359496, 387397934,
     3301201811, 2812801621, 2122220284, 1027426170, 1684319432, 1566435258, 421079858, 1936954854,
     1616945344, 2172753945, 1330631070, 3705438115, 572679748, 707427924, 2425400123, 2290647819,
     1179044492, 4008585671, 3099120491, 336870440, 3739122087, 1583276732, 185277718, 3688593069,
     3772791771, 842159716, 976899700, 168435220, 1229577106, 101059084, 606366792, 1549591736,
     3267517855, 3553849021, 2897014595, 1650632388, 2442242105, 2509612081, 3840161747, 2038008818,
     3890688725, 3368567691, 926374254, 1835907034, 2374863873, 3587531953, 1313788572, 2846482505,
     1819063512, 1448540844, 4109633523, 3941213647, 1701162954, 2054852340, 2930698567, 134748176,
     3132806511, 2021165296, 623210314, 774795868, 471606328, 2795958615, 3031746419, 3334885783,
     3907527627, 3722280097, 1953799400, 522133822, 1263263126, 3183336545, 2341176845, 2324333839,
     1886425312, 1044267644, 3048588401, 1718004428, 1212733584, 50529542, 4143317495, 235803164,
     1633788866, 892690282, 1465383342, 3115962473, 2256965911, 3250673817, 488449850, 2661202215,
     3789633753, 4177007595, 2560144171, 286339874, 1768537042, 3654906025, 2391705863, 2492770099,
     2610673197, 505291324, 2273808917, 3924369609, 3469625735, 1431699370, 673740880, 3755965093,
     2358021891, 2711746649, 2307489801, 218961690, 3217021541, 3873845719, 1111672452, 1751693520,
     1094828930, 2576986153, 757954394, 252645662, 2964376443, 1414855848, 3149649517, 370555436]"

definition mtpz_aes_ft2 :: "u32 list" where
  "mtpz_aes_ft2 = [1671808611, 2089089148, 2006576759, 2072901243, 4061003762, 1807603307, 1873927791, 3310653893,
     810573872, 16974337, 1739181671, 729634347, 4263110654, 3613570519, 2883997099, 1989864566,
     3393556426, 2191335298, 3376449993, 2106063485, 4195741690, 1508618841, 1204391495, 4027317232,
     2917941677, 3563566036, 2734514082, 2951366063, 2629772188, 2767672228, 1922491506, 3227229120,
     3082974647, 4246528509, 2477669779, 644500518, 911895606, 1061256767, 4144166391, 3427763148,
     878471220, 2784252325, 3845444069, 4043897329, 1905517169, 3631459288, 827548209, 356461077,
     67897348, 3344078279, 593839651, 3277757891, 405286936, 2527147926, 84871685, 2595565466,
     118033927, 305538066, 2157648768, 3795705826, 3945188843, 661212711, 2999812018, 1973414517,
     152769033, 2208177539, 745822252, 439235610, 455947803, 1857215598, 1525593178, 2700827552,
     1391895634, 994932283, 3596728278, 3016654259, 695947817, 3812548067, 795958831, 2224493444,
     1408607827, 3513301457, 0, 3979133421, 543178784, 4229948412, 2982705585, 1542305371,
     1790891114, 3410398667, 3201918910, 961245753, 1256100938, 1289001036, 1491644504, 3477767631,
     3496721360, 4012557807, 2867154858, 4212583931, 1137018435, 1305975373, 861234739, 2241073541,
     1171229253, 4178635257, 33948674, 2139225727, 1357946960, 1011120188, 2679776671, 2833468328,
     1374921297, 2751356323, 1086357568, 2408187279, 2460827538, 2646352285, 944271416, 4110742005,
     3168756668, 3066132406, 3665145818, 560153121, 271589392, 4279952895, 4077846003, 3530407890,
     3444343245, 202643468, 322250259, 3962553324, 1608629855, 2543990167, 1154254916, 389623319,
     3294073796, 2817676711, 2122513534, 1028094525, 1689045092, 1575467613, 422261273, 1939203699,
     1621147744, 2174228865, 1339137615, 3699352540, 577127458, 712922154, 2427141008, 2290289544,
     1187679302, 3995715566, 3100863416, 339486740, 3732514782, 1591917662, 186455563, 3681988059,
     3762019296, 844522546, 978220090, 169743370, 1239126601, 101321734, 611076132, 1558493276,
     3260915650, 3547250131, 2901361580, 1655096418, 2443721105, 2510565781, 3828863972, 2039214713,
     3878868455, 3359869896, 928607799, 1840765549, 2374762893, 3580146133, 1322425422, 2850048425,
     1823791212, 1459268694, 4094161908, 3928346602, 1706019429, 2056189050, 2934523822, 135794696,
     3134549946, 2022240376, 628050469, 779246638, 472135708, 2800834470, 3032970164, 3327236038,
     3894660072, 3715932637, 1956440180, 522272287, 1272813131, 3185336765, 2340818315, 2323976074,
     1888542832, 1044544574, 3049550261, 1722469478, 1222152264, 50660867, 4127324150, 236067854,
     1638122081, 895445557, 1475980887, 3117443513, 2257655686, 3243809217, 489110045, 2662934430,
     3778599393, 4162055160, 2561878936, 288563729, 1773916777, 3648039385, 2391345038, 2493985684,
     2612407707, 505560094, 2274497927, 3911240169, 3460925390, 1442818645, 678973480, 3749357023,
     2358182796, 2717407649, 2306869641, 219617805, 3218761151, 3862026214, 1120306242, 1756942440,
     1103331905, 2578459033, 762796589, 252780047, 2966125488, 1425844308, 3151392187, 372911126]"

definition mtpz_aes_ft3 :: "u32 list" where
  "mtpz_aes_ft3 = [3328402341, 4168907908, 4000806809, 4135287693, 4294111757, 3597364157, 3731845041, 2445657428,
     1613770832, 33620227, 3462883241, 1445669757, 3892248089, 3050821474, 1303096294, 3967186586,
     2412431941, 528646813, 2311702848, 4202528135, 4026202645, 2992200171, 2387036105, 4226871307,
     1101901292, 3017069671, 1604494077, 1169141738, 597466303, 1403299063, 3832705686, 2613100635,
     1974974402, 3791519004, 1033081774, 1277568618, 1815492186, 2118074177, 4126668546, 2211236943,
     1748251740, 1369810420, 3521504564, 4193382664, 3799085459, 2883115123, 1647391059, 706024767,
     134480908, 2512897874, 1176707941, 2646852446, 806885416, 932615841, 168101135, 798661301,
     235341577, 605164086, 461406363, 3756188221, 3454790438, 1311188841, 2142417613, 3933566367,
     302582043, 495158174, 1479289972, 874125870, 907746093, 3698224818, 3025820398, 1537253627,
     2756858614, 1983593293, 3084310113, 2108928974, 1378429307, 3722699582, 1580150641, 327451799,
     2790478837, 3117535592, 0, 3253595436, 1075847264, 3825007647, 2041688520, 3059440621,
     3563743934, 2378943302, 1740553945, 1916352843, 2487896798, 2555137236, 2958579944, 2244988746,
     3151024235, 3320835882, 1336584933, 3992714006, 2252555205, 2588757463, 1714631509, 293963156,
     2319795663, 3925473552, 67240454, 4269768577, 2689618160, 2017213508, 631218106, 1269344483,
     2723238387, 1571005438, 2151694528, 93294474, 1066570413, 563977660, 1882732616, 4059428100,
     1673313503, 2008463041, 2950355573, 1109467491, 537923632, 3858759450, 4260623118, 3218264685,
     2177748300, 403442708, 638784309, 3287084079, 3193921505, 899127202, 2286175436, 773265209,
     2479146071, 1437050866, 4236148354, 2050833735, 3362022572, 3126681063, 840505643, 3866325909,
     3227541664, 427917720, 2655997905, 2749160575, 1143087718, 1412049534, 999329963, 193497219,
     2353415882, 3354324521, 1807268051, 672404540, 2816401017, 3160301282, 369822493, 2916866934,
     3688947771, 1681011286, 1949973070, 336202270, 2454276571, 201721354, 1210328172, 3093060836,
     2680341085, 3184776046, 1135389935, 3294782118, 965841320, 831886756, 3554993207, 4068047243,
     3588745010, 2345191491, 1849112409, 3664604599, 26054028, 2983581028, 2622377682, 1235855840,
     3630984372, 2891339514, 4092916743, 3488279077, 3395642799, 4101667470, 1202630377, 268961816,
     1874508501, 4034427016, 1243948399, 1546530418, 941366308, 1470539505, 1941222599, 2546386513,
     3421038627, 2715671932, 3899946140, 1042226977, 2521517021, 1639824860, 227249030, 260737669,
     3765465232, 2084453954, 1907733956, 3429263018, 2420656344, 100860677, 4160157185, 470683154,
     3261161891, 1781871967, 2924959737, 1773779408, 394692241, 2579611992, 974986535, 664706745,
     3655459128, 3958962195, 731420851, 571543859, 3530123707, 2849626480, 126783113, 865375399,
     765172662, 1008606754, 361203602, 3387549984, 2278477385, 2857719295, 1344809080, 2782912378,
     59542671, 1503764984, 160008576, 437062935, 1707065306, 3622233649, 2218934982, 3496503480,
     2185314755, 697932208, 1512910199, 504303377, 2075177163, 2824099068, 1841019862, 739644986]"

definition mtpz_aes_ft4 :: "u32 list" where
  "mtpz_aes_ft4 = [2781242211, 2230877308, 2582542199, 2381740923, 234877682, 3184946027, 2984144751, 1418839493,
     1348481072, 50462977, 2848876391, 2102799147, 434634494, 1656084439, 3863849899, 2599188086,
     1167051466, 2636087938, 1082771913, 2281340285, 368048890, 3954334041, 3381544775, 201060592,
     3963727277, 1739838676, 4250903202, 3930435503, 3206782108, 4149453988, 2531553906, 1536934080,
     3262494647, 484572669, 2923271059, 1783375398, 1517041206, 1098792767, 49674231, 1334037708,
     1550332980, 4098991525, 886171109, 150598129, 2481090929, 1940642008, 1398944049, 1059722517,
     201851908, 1385547719, 1699095331, 1587397571, 674240536, 2704774806, 252314885, 3039795866,
     151914247, 908333586, 2602270848, 1038082786, 651029483, 1766729511, 3447698098, 2682942837,
     454166793, 2652734339, 1951935532, 775166490, 758520603, 3000790638, 4004797018, 4217086112,
     4137964114, 1299594043, 1639438038, 3464344499, 2068982057, 1054729187, 1901997871, 2534638724,
     4121318227, 1757008337, 0, 750906861, 1614815264, 535035132, 3363418545, 3988151131,
     3201591914, 1183697867, 3647454910, 1265776953, 3734260298, 3566750796, 3903871064, 1250283471,
     1807470800, 717615087, 3847203498, 384695291, 3313910595, 3617213773, 1432761139, 2484176261,
     3481945413, 283769337, 100925954, 2180939647, 4037038160, 1148730428, 3123027871, 3813386408,
     4087501137, 4267549603, 3229630528, 2315620239, 2906624658, 3156319645, 1215313976, 82966005,
     3747855548, 3245848246, 1974459098, 1665278241, 807407632, 451280895, 251524083, 1841287890,
     1283575245, 337120268, 891687699, 801369324, 3787349855, 2721421207, 3431482436, 959321879,
     1469301956, 4065699751, 2197585534, 1199193405, 2898814052, 3887750493, 724703513, 2514908019,
     2696962144, 2551808385, 3516813135, 2141445340, 1715741218, 2119445034, 2872807568, 2198571144,
     3398190662, 700968686, 3547052216, 1009259540, 2041044702, 3803995742, 487983883, 1991105499,
     1004265696, 1449407026, 1316239930, 504629770, 3683797321, 168560134, 1816667172, 3837287516,
     1570751170, 1857934291, 4014189740, 2797888098, 2822345105, 2754712981, 936633572, 2347923833,
     852879335, 1133234376, 1500395319, 3084545389, 2348912013, 1689376213, 3533459022, 3762923945,
     3034082412, 4205598294, 133428468, 634383082, 2949277029, 2398386810, 3913789102, 403703816,
     3580869306, 2297460856, 1867130149, 1918643758, 607656988, 4049053350, 3346248884, 1368901318,
     600565992, 2090982877, 2632479860, 557719327, 3717614411, 3697393085, 2249034635, 2232388234,
     2430627952, 1115438654, 3295786421, 2865522278, 3633334344, 84280067, 33027830, 303828494,
     2747425121, 1600795957, 4188952407, 3496589753, 2434238086, 1486471617, 658119965, 3106381470,
     953803233, 334231800, 3005978776, 857870609, 3151128937, 1890179545, 2298973838, 2805175444,
     3056442267, 574365214, 2450884487, 550103529, 1233637070, 4289353045, 2018519080, 2057691103,
     2399374476, 4166623649, 2148108681, 387583245, 3664101311, 836232934, 3330556482, 3100665960,
     3280093505, 2955516313, 2002398509, 287182607, 3413881008, 4238890068, 3597515707, 975967766]"

definition mtpz_aes_rt1 :: "u32 list" where
  "mtpz_aes_rt1 = [4104605777, 1097159550, 396673818, 660510266, 2875968315, 2638606623, 4200115116, 3808662347,
     821712160, 1986918061, 3430322568, 38544885, 3856137295, 718002117, 893681702, 1654886325,
     2975484382, 3122358053, 3926825029, 4274053469, 796197571, 1290801793, 1184342925, 3556361835,
     2405426947, 2459735317, 1836772287, 1381620373, 3196267988, 1948373848, 3764988233, 3385345166,
     3263785589, 2390325492, 1480485785, 3111247143, 3780097726, 2293045232, 548169417, 3459953789,
     3746175075, 439452389, 1362321559, 1400849762, 1685577905, 1806599355, 2174754046, 137073913,
     1214797936, 1174215055, 3731654548, 2079897426, 1943217067, 1258480242, 529487843, 1437280870,
     3945269170, 3049390895, 3313212038, 923313619, 679998000, 3215307299, 57326082, 377642221,
     3474729866, 2041877159, 133361907, 1776460110, 3673476453, 96392454, 878845905, 2801699524,
     777231668, 4082475170, 2330014213, 4142626212, 2213296395, 1626319424, 1906247262, 1846563261,
     562755902, 3708173718, 1040559837, 3871163981, 1418573201, 3294430577, 114585348, 1343618912,
     2566595609, 3186202582, 1078185097, 3651041127, 3896688048, 2307622919, 425408743, 3371096953,
     2081048481, 1108339068, 2216610296, 0, 2156299017, 736970802, 292596766, 1517440620,
     251657213, 2235061775, 2933202493, 758720310, 265905162, 1554391400, 1532285339, 908999204,
     174567692, 1474760595, 4002861748, 2610011675, 3234156416, 3693126241, 2001430874, 303699484,
     2478443234, 2687165888, 585122620, 454499602, 151849742, 2345119218, 3064510765, 514443284,
     4044981591, 1963412655, 2581445614, 2137062819, 19308535, 1928707164, 1715193156, 4219352155,
     1126790795, 600235211, 3992742070, 3841024952, 836553431, 1669664834, 2535604243, 3323011204,
     1243905413, 3141400786, 4180808110, 698445255, 2653899549, 2989552604, 2253581325, 3252932727,
     3004591147, 1891211689, 2487810577, 3915653703, 4237083816, 4030667424, 2100090966, 865136418,
     1229899655, 953270745, 3399679628, 3557504664, 4118925222, 2061379749, 3079546586, 2915017791,
     983426092, 2022837584, 1607244650, 2118541908, 2366882550, 3635996816, 972512814, 3283088770,
     1568718495, 3499326569, 3576539503, 621982671, 2895723464, 410887952, 2623762152, 1002142683,
     645401037, 1494807662, 2595684844, 1335535747, 2507040230, 4293295786, 3167684641, 367585007,
     3885750714, 1865862730, 2668221674, 2960971305, 2763173681, 1059270954, 2777952454, 2724642869,
     1320957812, 2194319100, 2429595872, 2815956275, 77089521, 3973773121, 3444575871, 2448830231,
     1305906550, 4021308739, 2857194700, 2516901860, 3518358430, 1787304780, 740276417, 1699839814,
     1592394909, 2352307457, 2272556026, 188821243, 1729977011, 3687994002, 274084841, 3594982253,
     3613494426, 2701949495, 4162096729, 322734571, 2837966542, 1640576439, 484830689, 1202797690,
     3537852828, 4067639125, 349075736, 3342319475, 4157467219, 4255800159, 1030690015, 1155237496,
     2951971274, 1757691577, 607398968, 2738905026, 499347990, 3794078908, 1011452712, 227885567,
     2818666809, 213114376, 3034881240, 1455525988, 3414450555, 850817237, 1817998408, 3092726480]"

definition mtpz_aes_rt2 :: "u32 list" where
  "mtpz_aes_rt2 = [2807058932, 1699970625, 2764249623, 1586903591, 1808481195, 1173430173, 1487645946, 59984867,
     4199882800, 1844882806, 1989249228, 1277555970, 3623636965, 3419915562, 1149249077, 2744104290,
     1514790577, 459744698, 244860394, 3235995134, 1963115311, 4027744588, 2544078150, 4190530515,
     1608975247, 2627016082, 2062270317, 1507497298, 2200818878, 567498868, 1764313568, 3359936201,
     2305455554, 2037970062, 1047239000, 1910319033, 1337376481, 2904027272, 2892417312, 984907214,
     1243112415, 830661914, 861968209, 2135253587, 2011214180, 2927934315, 2686254721, 731183368,
     1750626376, 4246310725, 1820824798, 4172763771, 3542330227, 48394827, 2404901663, 2871682645,
     671593195, 3254988725, 2073724613, 145085239, 2280796200, 2779915199, 1790575107, 2187128086,
     472615631, 3029510009, 4075877127, 3802222185, 4107101658, 3201631749, 1646252340, 4270507174,
     1402811438, 1436590835, 3778151818, 3950355702, 3963161475, 4020912224, 2667994737, 273792366,
     2331590177, 104699613, 95345982, 3175501286, 2377486676, 1560637892, 3564045318, 369057872,
     4213447064, 3919042237, 1137477952, 2658625497, 1119727848, 2340947849, 1530455833, 4007360968,
     172466556, 266959938, 516552836, 0, 2256734592, 3980931627, 1890328081, 1917742170,
     4294704398, 945164165, 3575528878, 958871085, 3647212047, 2787207260, 1423022939, 775562294,
     1739656202, 3876557655, 2530391278, 2443058075, 3310321856, 547512796, 1265195639, 437656594,
     3121275539, 719700128, 3762502690, 387781147, 218828297, 3350065803, 2830708150, 2848461854,
     428169201, 122466165, 3720081049, 1627235199, 648017665, 4122762354, 1002783846, 2117360635,
     695634755, 3336358691, 4234721005, 4049844452, 3704280881, 2232435299, 574624663, 287343814,
     612205898, 1039717051, 840019705, 2708326185, 793451934, 821288114, 1391201670, 3822090177,
     376187827, 3113855344, 1224348052, 1679968233, 2361698556, 1058709744, 752375421, 2431590963,
     1321699145, 3519142200, 2734591178, 188127444, 2177869557, 3727205754, 2384911031, 3215212461,
     2648976442, 2450346104, 3432737375, 1180849278, 331544205, 3102249176, 4150144569, 2952102595,
     2159976285, 2474404304, 766078933, 313773861, 2570832044, 2108100632, 1668212892, 3145456443,
     2013908262, 418672217, 3070356634, 2594734927, 1852171925, 3867060991, 3473416636, 3907448597,
     2614737639, 919489135, 164948639, 2094410160, 2997825956, 590424639, 2486224549, 1723872674,
     3157750862, 3399941250, 3501252752, 3625268135, 2555048196, 3673637356, 1343127501, 4130281361,
     3599595085, 2957853679, 1297403050, 81781910, 3051593425, 2283490410, 532201772, 1367295589,
     3926170974, 895287692, 1953757831, 1093597963, 492483431, 3528626907, 1446242576, 1192455638,
     1636604631, 209336225, 344873464, 1015671571, 669961897, 3375740769, 3857572124, 2973530695,
     3747192018, 1933530610, 3464042516, 935293895, 3454686199, 2858115069, 1863638845, 3683022916,
     4085369519, 3292445032, 875313188, 1080017571, 3279033885, 621591778, 1233856572, 2504130317,
     24197544, 3017672716, 3835484340, 3247465558, 2220981195, 3060847922, 1551124588, 1463996600]"

definition mtpz_aes_rt3 :: "u32 list" where
  "mtpz_aes_rt3 = [1374988112, 2118214995, 437757123, 975658646, 1001089995, 530400753, 2902087851, 1273168787,
     540080725, 2910219766, 2295101073, 4110568485, 1340463100, 3307916247, 641025152, 3043140495,
     3736164937, 632953703, 1172967064, 1576976609, 3274667266, 2169303058, 2370213795, 1809054150,
     59727847, 361929877, 3211623147, 2505202138, 3569255213, 1484005843, 1239443753, 2395588676,
     1975683434, 4102977912, 2572697195, 666464733, 3202437046, 4035489047, 3374361702, 2110667444,
     1675577880, 3843699074, 2538681184, 1649639237, 2976151520, 3144396420, 4269907996, 4178062228,
     1883793496, 2403728665, 2497604743, 1383856311, 2876494627, 1917518562, 3810496343, 1716890410,
     3001755655, 800440835, 2261089178, 3543599269, 807962610, 599762354, 33778362, 3977675356,
     2328828971, 2809771154, 4077384432, 1315562145, 1708848333, 101039829, 3509871135, 3299278474,
     875451293, 2733856160, 92987698, 2767645557, 193195065, 1080094634, 1584504582, 3178106961,
     1042385657, 2531067453, 3711829422, 1306967366, 2438237621, 1908694277, 67556463, 1615861247,
     429456164, 3602770327, 2302690252, 1742315127, 2968011453, 126454664, 3877198648, 2043211483,
     2709260871, 2084704233, 4169408201, 0, 159417987, 841739592, 504459436, 1817866830,
     4245618683, 260388950, 1034867998, 908933415, 168810852, 1750902305, 2606453969, 607530554,
     202008497, 2472011535, 3035535058, 463180190, 2160117071, 1641816226, 1517767529, 470948374,
     3801332234, 3231722213, 1008918595, 303765277, 235474187, 4069246893, 766945465, 337553864,
     1475418501, 2943682380, 4003061179, 2743034109, 4144047775, 1551037884, 1147550661, 1543208500,
     2336434550, 3408119516, 3069049960, 3102011747, 3610369226, 1113818384, 328671808, 2227573024,
     2236228733, 3535486456, 2935566865, 3341394285, 496906059, 3702665459, 226906860, 2009195472,
     733156972, 2842737049, 294930682, 1206477858, 2835123396, 2700099354, 1451044056, 573804783,
     2269728455, 3644379585, 2362090238, 2564033334, 2801107407, 2776292904, 3669462566, 1068351396,
     742039012, 1350078989, 1784663195, 1417561698, 4136440770, 2430122216, 775550814, 2193862645,
     2673705150, 1775276924, 1876241833, 3475313331, 3366754619, 270040487, 3902563182, 3678124923,
     3441850377, 1851332852, 3969562369, 2203032232, 3868552805, 2868897406, 566021896, 4011190502,
     3135740889, 1248802510, 3936291284, 699432150, 832877231, 708780849, 3332740144, 899835584,
     1951317047, 4236429990, 3767586992, 866637845, 4043610186, 1106041591, 2144161806, 395441711,
     1984812685, 1139781709, 3433712980, 3835036895, 2664543715, 1282050075, 3240894392, 1181045119,
     2640243204, 25965917, 4203181171, 4211818798, 3009879386, 2463879762, 3910161971, 1842759443,
     2597806476, 933301370, 1509430414, 3943906441, 3467192302, 3076639029, 3776767469, 2051518780,
     2631065433, 1441952575, 404016761, 1942435775, 1408749034, 1610459739, 3745345300, 2017778566,
     3400528769, 3110650942, 941896748, 3265478751, 371049330, 3168937228, 675039627, 4279080257,
     967311729, 135050206, 3635733660, 1683407248, 2076935265, 3576870512, 1215061108, 3501741890]"

definition mtpz_aes_rt4 :: "u32 list" where
  "mtpz_aes_rt4 = [1347548327, 1400783205, 3273267108, 2520393566, 3409685355, 4045380933, 2880240216, 2471224067,
     1428173050, 4138563181, 2441661558, 636813900, 4233094615, 3620022987, 2149987652, 2411029155,
     1239331162, 1730525723, 2554718734, 3781033664, 46346101, 310463728, 2743944855, 3328955385,
     3875770207, 2501218972, 3955191162, 3667219033, 768917123, 3545789473, 692707433, 1150208456,
     1786102409, 2029293177, 1805211710, 3710368113, 3065962831, 401639597, 1724457132, 3028143674,
     409198410, 2196052529, 1620529459, 1164071807, 3769721975, 2226875310, 486441376, 2499348523,
     1483753576, 428819965, 2274680428, 3075636216, 598438867, 3799141122, 1474502543, 711349675,
     129166120, 53458370, 2592523643, 2782082824, 4063242375, 2988687269, 3120694122, 1559041666,
     730517276, 2460449204, 4042459122, 2706270690, 3446004468, 3573941694, 533804130, 2328143614,
     2637442643, 2695033685, 839224033, 1973745387, 957055980, 2856345839, 106852767, 1371368976,
     4181598602, 1033297158, 2933734917, 1179510461, 3046200461, 91341917, 1862534868, 4284502037,
     605657339, 2547432937, 3431546947, 2003294622, 3182487618, 2282195339, 954669403, 3682191598,
     1201765386, 3917234703, 3388507166, 0, 2198438022, 1211247597, 2887651696, 1315723890,
     4227665663, 1443857720, 507358933, 657861945, 1678381017, 560487590, 3516619604, 975451694,
     2970356327, 261314535, 3535072918, 2652609425, 1333838021, 2724322336, 1767536459, 370938394,
     182621114, 3854606378, 1128014560, 487725847, 185469197, 2918353863, 3106780840, 3356761769,
     2237133081, 1286567175, 3152976349, 4255350624, 2683765030, 3160175349, 3309594171, 878443390,
     1988838185, 3704300486, 1756818940, 1673061617, 3403100636, 272786309, 1075025698, 545572369,
     2105887268, 4174560061, 296679730, 1841768865, 1260232239, 4091327024, 3960309330, 3497509347,
     1814803222, 2578018489, 4195456072, 575138148, 3299409036, 446754879, 3629546796, 4011996048,
     3347532110, 3252238545, 4270639778, 915985419, 3483825537, 681933534, 651868046, 2755636671,
     3828103837, 223377554, 2607439820, 1649704518, 3270937875, 3901806776, 1580087799, 4118987695,
     3198115200, 2087309459, 2842678573, 3016697106, 1003007129, 2802849917, 1860738147, 2077965243,
     164439672, 4100872472, 32283319, 2827177882, 1709610350, 2125135846, 136428751, 3874428392,
     3652904859, 3460984630, 3572145929, 3593056380, 2939266226, 824852259, 818324884, 3224740454,
     930369212, 2801566410, 2967507152, 355706840, 1257309336, 4148292826, 243256656, 790073846,
     2373340630, 1296297904, 1422699085, 3756299780, 3818836405, 457992840, 3099667487, 2135319889,
     77422314, 1560382517, 1945798516, 788204353, 1521706781, 1385356242, 870912086, 325965383,
     2358957921, 2050466060, 2388260884, 2313884476, 4006521127, 901210569, 3990953189, 1014646705,
     1503449823, 1062597235, 2031621326, 3212035895, 3931371469, 1533017514, 350174575, 2256028891,
     2177544179, 1052338372, 741876788, 1606591296, 1914052035, 213705253, 2334669897, 1107234197,
     1899603969, 3725069491, 2631447780, 2422494913, 1635502980, 1893020342, 1950903388, 1120974935]"

definition mtpz_aes_gb11 :: "u32 list" where
  "mtpz_aes_gb11 = [0, 185469197, 370938394, 487725847, 741876788, 657861945, 975451694, 824852259,
     1483753576, 1400783205, 1315723890, 1164071807, 1950903388, 2135319889, 1649704518, 1767536459,
     2967507152, 3152976349, 2801566410, 2918353863, 2631447780, 2547432937, 2328143614, 2177544179,
     3901806776, 3818836405, 4270639778, 4118987695, 3299409036, 3483825537, 3535072918, 3652904859,
     2077965243, 1893020342, 1841768865, 1724457132, 1474502543, 1559041666, 1107234197, 1257309336,
     598438867, 681933534, 901210569, 1052338372, 261314535, 77422314, 428819965, 310463728,
     3409685355, 3224740454, 3710368113, 3593056380, 3875770207, 3960309330, 4045380933, 4195456072,
     2471224067, 2554718734, 2237133081, 2388260884, 3212035895, 3028143674, 2842678573, 2724322336,
     4138563181, 4255350624, 3769721975, 3955191162, 3667219033, 3516619604, 3431546947, 3347532110,
     2933734917, 2782082824, 3099667487, 3016697106, 2196052529, 2313884476, 2499348523, 2683765030,
     1179510461, 1296297904, 1347548327, 1533017514, 1786102409, 1635502980, 2087309459, 2003294622,
     507358933, 355706840, 136428751, 53458370, 839224033, 957055980, 605657339, 790073846,
     2373340630, 2256028891, 2607439820, 2422494913, 2706270690, 2856345839, 3075636216, 3160175349,
     3573941694, 3725069491, 3273267108, 3356761769, 4181598602, 4063242375, 4011996048, 3828103837,
     1033297158, 915985419, 730517276, 545572369, 296679730, 446754879, 129166120, 213705253,
     1709610350, 1860738147, 1945798516, 2029293177, 1239331162, 1120974935, 1606591296, 1422699085,
     4148292826, 4233094615, 3781033664, 3931371469, 3682191598, 3497509347, 3446004468, 3328955385,
     2939266226, 2755636671, 3106780840, 2988687269, 2198438022, 2282195339, 2501218972, 2652609425,
     1201765386, 1286567175, 1371368976, 1521706781, 1805211710, 1620529459, 2105887268, 1988838185,
     533804130, 350174575, 164439672, 46346101, 870912086, 954669403, 636813900, 788204353,
     2358957921, 2274680428, 2592523643, 2441661558, 2695033685, 2880240216, 3065962831, 3182487618,
     3572145929, 3756299780, 3270937875, 3388507166, 4174560061, 4091327024, 4006521127, 3854606378,
     1014646705, 930369212, 711349675, 560487590, 272786309, 457992840, 106852767, 223377554,
     1678381017, 1862534868, 1914052035, 2031621326, 1211247597, 1128014560, 1580087799, 1428173050,
     32283319, 182621114, 401639597, 486441376, 768917123, 651868046, 1003007129, 818324884,
     1503449823, 1385356242, 1333838021, 1150208456, 1973745387, 2125135846, 1673061617, 1756818940,
     2970356327, 3120694122, 2802849917, 2887651696, 2637442643, 2520393566, 2334669897, 2149987652,
     3917234703, 3799141122, 4284502037, 4100872472, 3309594171, 3460984630, 3545789473, 3629546796,
     2050466060, 1899603969, 1814803222, 1730525723, 1443857720, 1560382517, 1075025698, 1260232239,
     575138148, 692707433, 878443390, 1062597235, 243256656, 91341917, 409198410, 325965383,
     3403100636, 3252238545, 3704300486, 3620022987, 3874428392, 3990953189, 4042459122, 4227665663,
     2460449204, 2578018489, 2226875310, 2411029155, 3198115200, 3046200461, 2827177882, 2743944855]"

definition mtpz_aes_gb14 :: "u32 list" where
  "mtpz_aes_gb14 = [0, 235474187, 470948374, 303765277, 941896748, 908933415, 607530554, 708780849,
     1883793496, 2118214995, 1817866830, 1649639237, 1215061108, 1181045119, 1417561698, 1517767529,
     3767586992, 4003061179, 4236429990, 4069246893, 3635733660, 3602770327, 3299278474, 3400528769,
     2430122216, 2664543715, 2362090238, 2193862645, 2835123396, 2801107407, 3035535058, 3135740889,
     3678124923, 3576870512, 3341394285, 3374361702, 3810496343, 3977675356, 4279080257, 4043610186,
     2876494627, 2776292904, 3076639029, 3110650942, 2472011535, 2640243204, 2403728665, 2169303058,
     1001089995, 899835584, 666464733, 699432150, 59727847, 226906860, 530400753, 294930682,
     1273168787, 1172967064, 1475418501, 1509430414, 1942435775, 2110667444, 1876241833, 1641816226,
     2910219766, 2743034109, 2976151520, 3211623147, 2505202138, 2606453969, 2302690252, 2269728455,
     3711829422, 3543599269, 3240894392, 3475313331, 3843699074, 3943906441, 4178062228, 4144047775,
     1306967366, 1139781709, 1374988112, 1610459739, 1975683434, 2076935265, 1775276924, 1742315127,
     1034867998, 866637845, 566021896, 800440835, 92987698, 193195065, 429456164, 395441711,
     1984812685, 2017778566, 1784663195, 1683407248, 1315562145, 1080094634, 1383856311, 1551037884,
     101039829, 135050206, 437757123, 337553864, 1042385657, 807962610, 573804783, 742039012,
     2531067453, 2564033334, 2328828971, 2227573024, 2935566865, 2700099354, 3001755655, 3168937228,
     3868552805, 3902563182, 4203181171, 4102977912, 3736164937, 3501741890, 3265478751, 3433712980,
     1106041591, 1340463100, 1576976609, 1408749034, 2043211483, 2009195472, 1708848333, 1809054150,
     832877231, 1068351396, 766945465, 599762354, 159417987, 126454664, 361929877, 463180190,
     2709260871, 2943682380, 3178106961, 3009879386, 2572697195, 2538681184, 2236228733, 2336434550,
     3509871135, 3745345300, 3441850377, 3274667266, 3910161971, 3877198648, 4110568485, 4211818798,
     2597806476, 2497604743, 2261089178, 2295101073, 2733856160, 2902087851, 3202437046, 2968011453,
     3936291284, 3835036895, 4136440770, 4169408201, 3535486456, 3702665459, 3467192302, 3231722213,
     2051518780, 1951317047, 1716890410, 1750902305, 1113818384, 1282050075, 1584504582, 1350078989,
     168810852, 67556463, 371049330, 404016761, 841739592, 1008918595, 775550814, 540080725,
     3969562369, 3801332234, 4035489047, 4269907996, 3569255213, 3669462566, 3366754619, 3332740144,
     2631065433, 2463879762, 2160117071, 2395588676, 2767645557, 2868897406, 3102011747, 3069049960,
     202008497, 33778362, 270040487, 504459436, 875451293, 975658646, 675039627, 641025152,
     2084704233, 1917518562, 1615861247, 1851332852, 1147550661, 1248802510, 1484005843, 1451044056,
     933301370, 967311729, 733156972, 632953703, 260388950, 25965917, 328671808, 496906059,
     1206477858, 1239443753, 1543208500, 1441952575, 2144161806, 1908694277, 1675577880, 1842759443,
     3610369226, 3644379585, 3408119516, 3307916247, 4011190502, 3776767469, 4077384432, 4245618683,
     2809771154, 2842737049, 3144396420, 3043140495, 2673705150, 2438237621, 2203032232, 2370213795]"

definition mtpz_aes_gb13 :: "u32 list" where
  "mtpz_aes_gb13 = [0, 218828297, 437656594, 387781147, 875313188, 958871085, 775562294, 590424639,
     1750626376, 1699970625, 1917742170, 2135253587, 1551124588, 1367295589, 1180849278, 1265195639,
     3501252752, 3720081049, 3399941250, 3350065803, 3835484340, 3919042237, 4270507174, 4085369519,
     3102249176, 3051593425, 2734591178, 2952102595, 2361698556, 2177869557, 2530391278, 2614737639,
     3145456443, 3060847922, 2708326185, 2892417312, 2404901663, 2187128086, 2504130317, 2555048196,
     3542330227, 3727205754, 3375740769, 3292445032, 3876557655, 3926170974, 4246310725, 4027744588,
     1808481195, 1723872674, 1910319033, 2094410160, 1608975247, 1391201670, 1173430173, 1224348052,
     59984867, 244860394, 428169201, 344873464, 935293895, 984907214, 766078933, 547512796,
     1844882806, 1627235199, 2011214180, 2062270317, 1507497298, 1423022939, 1137477952, 1321699145,
     95345982, 145085239, 532201772, 313773861, 830661914, 1015671571, 731183368, 648017665,
     3175501286, 2957853679, 2807058932, 2858115069, 2305455554, 2220981195, 2474404304, 2658625497,
     3575528878, 3625268135, 3473416636, 3254988725, 3778151818, 3963161475, 4213447064, 4130281361,
     3599595085, 3683022916, 3432737375, 3247465558, 3802222185, 4020912224, 4172763771, 4122762354,
     3201631749, 3017672716, 2764249623, 2848461854, 2331590177, 2280796200, 2431590963, 2648976442,
     104699613, 188127444, 472615631, 287343814, 840019705, 1058709744, 671593195, 621591778,
     1852171925, 1668212892, 1953757831, 2037970062, 1514790577, 1463996600, 1080017571, 1297403050,
     3673637356, 3623636965, 3235995134, 3454686199, 4007360968, 3822090177, 4107101658, 4190530515,
     2997825956, 3215212461, 2830708150, 2779915199, 2256734592, 2340947849, 2627016082, 2443058075,
     172466556, 122466165, 273792366, 492483431, 1047239000, 861968209, 612205898, 695634755,
     1646252340, 1863638845, 2013908262, 1963115311, 1446242576, 1530455833, 1277555970, 1093597963,
     1636604631, 1820824798, 2073724613, 1989249228, 1436590835, 1487645946, 1337376481, 1119727848,
     164948639, 81781910, 331544205, 516552836, 1039717051, 821288114, 669961897, 719700128,
     2973530695, 3157750862, 2871682645, 2787207260, 2232435299, 2283490410, 2667994737, 2450346104,
     3647212047, 3564045318, 3279033885, 3464042516, 3980931627, 3762502690, 4150144569, 4199882800,
     3070356634, 3121275539, 2904027272, 2686254721, 2200818878, 2384911031, 2570832044, 2486224549,
     3747192018, 3528626907, 3310321856, 3359936201, 3950355702, 3867060991, 4049844452, 4234721005,
     1739656202, 1790575107, 2108100632, 1890328081, 1402811438, 1586903591, 1233856572, 1149249077,
     266959938, 48394827, 369057872, 418672217, 1002783846, 919489135, 567498868, 752375421,
     209336225, 24197544, 376187827, 459744698, 945164165, 895287692, 574624663, 793451934,
     1679968233, 1764313568, 2117360635, 1933530610, 1343127501, 1560637892, 1243112415, 1192455638,
     3704280881, 3519142200, 3336358691, 3419915562, 3907448597, 3857572124, 4075877127, 4294704398,
     3029510009, 3113855344, 2927934315, 2744104290, 2159976285, 2377486676, 2594734927, 2544078150]"

definition mtpz_aes_gb9 :: "u32 list" where
  "mtpz_aes_gb9 = [0, 151849742, 303699484, 454499602, 607398968, 758720310, 908999204, 1059270954,
     1214797936, 1097159550, 1517440620, 1400849762, 1817998408, 1699839814, 2118541908, 2001430874,
     2429595872, 2581445614, 2194319100, 2345119218, 3034881240, 3186202582, 2801699524, 2951971274,
     3635996816, 3518358430, 3399679628, 3283088770, 4237083816, 4118925222, 4002861748, 3885750714,
     1002142683, 850817237, 698445255, 548169417, 529487843, 377642221, 227885567, 77089521,
     1943217067, 2061379749, 1640576439, 1757691577, 1474760595, 1592394909, 1174215055, 1290801793,
     2875968315, 2724642869, 3111247143, 2960971305, 2405426947, 2253581325, 2638606623, 2487810577,
     3808662347, 3926825029, 4044981591, 4162096729, 3342319475, 3459953789, 3576539503, 3693126241,
     1986918061, 2137062819, 1685577905, 1836772287, 1381620373, 1532285339, 1078185097, 1229899655,
     1040559837, 923313619, 740276417, 621982671, 439452389, 322734571, 137073913, 19308535,
     3871163981, 4021308739, 4104605777, 4255800159, 3263785589, 3414450555, 3499326569, 3651041127,
     2933202493, 2815956275, 3167684641, 3049390895, 2330014213, 2213296395, 2566595609, 2448830231,
     1305906550, 1155237496, 1607244650, 1455525988, 1776460110, 1626319424, 2079897426, 1928707164,
     96392454, 213114376, 396673818, 514443284, 562755902, 679998000, 865136418, 983426092,
     3708173718, 3557504664, 3474729866, 3323011204, 4180808110, 4030667424, 3945269170, 3794078908,
     2507040230, 2623762152, 2272556026, 2390325492, 2975484382, 3092726480, 2738905026, 2857194700,
     3973773121, 3856137295, 4274053469, 4157467219, 3371096953, 3252932727, 3673476453, 3556361835,
     2763173681, 2915017791, 3064510765, 3215307299, 2156299017, 2307622919, 2459735317, 2610011675,
     2081048481, 1963412655, 1846563261, 1729977011, 1480485785, 1362321559, 1243905413, 1126790795,
     878845905, 1030690015, 645401037, 796197571, 274084841, 425408743, 38544885, 188821243,
     3613494426, 3731654548, 3313212038, 3430322568, 4082475170, 4200115116, 3780097726, 3896688048,
     2668221674, 2516901860, 2366882550, 2216610296, 3141400786, 2989552604, 2837966542, 2687165888,
     1202797690, 1320957812, 1437280870, 1554391400, 1669664834, 1787304780, 1906247262, 2022837584,
     265905162, 114585348, 499347990, 349075736, 736970802, 585122620, 972512814, 821712160,
     2595684844, 2478443234, 2293045232, 2174754046, 3196267988, 3079546586, 2895723464, 2777952454,
     3537852828, 3687994002, 3234156416, 3385345166, 4142626212, 4293295786, 3841024952, 3992742070,
     174567692, 57326082, 410887952, 292596766, 777231668, 660510266, 1011452712, 893681702,
     1108339068, 1258480242, 1343618912, 1494807662, 1715193156, 1865862730, 1948373848, 2100090966,
     2701949495, 2818666809, 3004591147, 3122358053, 2235061775, 2352307457, 2535604243, 2653899549,
     3915653703, 3764988233, 4219352155, 4067639125, 3444575871, 3294430577, 3746175075, 3594982253,
     836553431, 953270745, 600235211, 718002117, 367585007, 484830689, 133361907, 251657213,
     2041877159, 1891211689, 1806599355, 1654886325, 1568718495, 1418573201, 1335535747, 1184342925]"

section \<open>AES engine\<close>

text \<open>
  The macros \<open>MTPZ_ENCRYPTIONLOBYTE\<close>, \<open>MTPZ_ENCRYPTIONBYTE1\<close>, \<open>MTPZ_ENCRYPTIONBYTE2\<close>
  and \<open>MTPZ_ENCRYPTIONBYTE3\<close> (bits 24 to 31, 16 to 23, 8 to 15 and 0 to 7), used as
  table indices.
\<close>

definition MTPZ_ENCRYPTIONLOBYTE :: "u32 \<Rightarrow> nat" where
  "MTPZ_ENCRYPTIONLOBYTE val = unat (drop_bit 24 val AND 0xFF)"

definition MTPZ_ENCRYPTIONBYTE1 :: "u32 \<Rightarrow> nat" where
  "MTPZ_ENCRYPTIONBYTE1 val = unat (drop_bit 16 val AND 0xFF)"

definition MTPZ_ENCRYPTIONBYTE2 :: "u32 \<Rightarrow> nat" where
  "MTPZ_ENCRYPTIONBYTE2 val = unat (drop_bit 8 val AND 0xFF)"

definition MTPZ_ENCRYPTIONBYTE3 :: "u32 \<Rightarrow> nat" where
  "MTPZ_ENCRYPTIONBYTE3 val = unat (val AND 0xFF)"

text \<open>\<open>MTPZ_SWAP(u[k])\<close> for a buffer \<open>u\<close> read through an \<open>unsigned int *\<close>.\<close>

definition swapped_word :: "byte list \<Rightarrow> nat \<Rightarrow> u32" where
  "swapped_word u k = mtpz_bswap32 (load32 u (4 * k))"

type_synonym quad = "u32 \<times> u32 \<times> u32 \<times> u32"

subsection \<open>Key schedule\<close>

text \<open>
  The loop \<open>for (i = key_len; i < ks; i += 4)\<close> of \<open>mtpz_encryption_expand_key_inner\<close>,
  with \<open>n\<close> the rounds that remain. The buffer \<open>key\<close> is filled from the front, four
  bytes a round, and only bytes already written are read: the model keeps the written
  prefix, which has \<open>i\<close> bytes when the round starts.
\<close>

fun expand_key_loop :: "nat \<Rightarrow> nat \<Rightarrow> nat \<Rightarrow> nat \<Rightarrow> byte list \<Rightarrow> byte list" where
  "expand_key_loop 0 key_len rcon_i i key = key"
| "expand_key_loop (Suc n) key_len rcon_i i key =
     (let t0 = key ! (i - 4); t1 = key ! (i - 3); t2 = key ! (i - 2); t3 = key ! (i - 1);
          sub = (i mod key_len = 0);
          temp = (if sub then
                    [(mtpz_aes_sbox ! unat t1 XOR mtpz_aes_rcon ! rcon_i) AND 0xFF,
                     mtpz_aes_sbox ! unat t2, mtpz_aes_sbox ! unat t3, mtpz_aes_sbox ! unat t0]
                  else if key_len > 24 \<and> i mod key_len = 16 then
                    [mtpz_aes_sbox ! unat t0, mtpz_aes_sbox ! unat t1,
                     mtpz_aes_sbox ! unat t2, mtpz_aes_sbox ! unat t3]
                  else [t0, t1, t2, t3])
      in expand_key_loop n key_len (if sub then rcon_i + 1 else rcon_i) (i + 4)
           (key @ map (\<lambda>j. (key ! (i + j - key_len) XOR temp ! j) AND 0xFF) [0..<4]))"

text \<open>
  \<open>mtpz_encryption_expand_key_inner(constant, key_len, &out, &out_len)\<close> returns \<open>out\<close>
  (\<open>None\<close> for the \<open>NULL\<close> of the \<open>default\<close> case) and \<open>out_len\<close>; it is undefined
  where \<open>constant\<close> has fewer than \<open>key_len\<close> bytes to copy.
\<close>

definition mtpz_encryption_expand_key_inner :: "byte list \<Rightarrow> nat \<Rightarrow> (byte list option \<times> nat) option" where
  "mtpz_encryption_expand_key_inner constant key_len =
     (let ks = (if key_len = 16 then Some (16 * (10 + 1))
                else if key_len = 24 then Some (16 * (12 + 1))
                else if key_len = 32 then Some (16 * (14 + 1))
                else None)
      in case ks of
           None \<Rightarrow> Some (None, 0)
         | Some ks \<Rightarrow>
             if length constant < key_len then None
             else Some (Some (expand_key_loop ((ks - key_len) div 4) key_len 0 key_len (take key_len constant)), ks))"

text \<open>
  \<open>mtpz_encryption_inv_mix_columns(expanded, offset, rounds)\<close>: the loop
  \<open>for (v8 = 1; v8 < rounds; v8++)\<close>, with \<open>n\<close> the rounds that remain and \<open>off\<close> the
  running offset \<open>o\<close>. Each round reads and rewrites the 16 bytes from \<open>o + 16\<close>, one
  word after the other; outside the 484-byte buffer that is undefined.
\<close>

definition inv_mix_word :: "byte list \<Rightarrow> nat \<Rightarrow> u32" where
  "inv_mix_word expanded p =
     mtpz_bswap32 (mtpz_aes_gb9 ! unat (expanded ! (p + 3)) XOR mtpz_aes_gb13 ! unat (expanded ! (p + 2))
                   XOR mtpz_aes_gb11 ! unat (expanded ! (p + 1)) XOR mtpz_aes_gb14 ! unat (expanded ! p))"

definition inv_mix_round :: "byte list \<Rightarrow> nat \<Rightarrow> byte list" where
  "inv_mix_round expanded off =
     (let e0 = store32 expanded (off + 16) (inv_mix_word expanded (off + 16));
          e1 = store32 e0 (off + 20) (inv_mix_word e0 (off + 20));
          e2 = store32 e1 (off + 24) (inv_mix_word e1 (off + 24))
      in store32 e2 (off + 28) (inv_mix_word e2 (off + 28)))"

fun inv_mix_loop :: "nat \<Rightarrow> nat \<Rightarrow> byte list \<Rightarrow> byte list option" where
  "inv_mix_loop 0 off expanded = Some expanded"
| "inv_mix_loop (Suc n) off expanded =
     (if off + 32 \<le> length expanded then inv_mix_loop n (off + 16) (inv_mix_round expanded off)
      else None)"

definition mtpz_encryption_inv_mix_columns :: "byte list \<Rightarrow> nat \<Rightarrow> int \<Rightarrow> byte list option" where
  "mtpz_encryption_inv_mix_columns expanded offset rounds = inv_mix_loop (nat (rounds - 1)) offset expanded"

text \<open>
  \<open>mtpz_encryption_expand_key(constant, key_len, count, &out_len)\<close>: the 484-byte buffer
  \<open>back\<close>. \<open>count\<close> is an int, and C's \<open>%\<close> truncates towards zero: the remainder of
  a negative \<open>count\<close> is the negated remainder of \<open>- count\<close>.
\<close>

definition mtpz_encryption_expand_key :: "byte list \<Rightarrow> nat \<Rightarrow> int \<Rightarrow> byte list option" where
  "mtpz_encryption_expand_key constant key_len count =
     do {
       (inner, inner_len) \<leftarrow> mtpz_encryption_expand_key_inner constant key_len;
       let back = poke (replicate 484 0) 0
                    [word_of_int (if count < 0 then - ((- count) mod 0xFF) else count mod 0xFF)];
           back = (case inner of None \<Rightarrow> back
                   | Some k \<Rightarrow> poke (poke back 4 k) (4 + inner_len) k);
           seek = (if count = 10 then 0xB4 else if count = 12 then 0xD4 else 0xF4)
       in mtpz_encryption_inv_mix_columns back seek count
     }"

subsection \<open>Single blocks\<close>

text \<open>\<open>v ^ MTPZ_SWAP(u_expanded[(keyOffset + 4 k) / 4])\<close> for the four state words.\<close>

definition add_round_key :: "byte list \<Rightarrow> nat \<Rightarrow> quad \<Rightarrow> quad" where
  "add_round_key expanded keyOffset v =
     (case v of (v14, v15, v16, v17) \<Rightarrow>
        (v14 XOR swapped_word expanded (keyOffset div 4),
         v15 XOR swapped_word expanded ((keyOffset + 4) div 4),
         v16 XOR swapped_word expanded ((keyOffset + 8) div 4),
         v17 XOR swapped_word expanded ((keyOffset + 12) div 4)))"

definition encrypt_tables :: "quad \<Rightarrow> quad" where
  "encrypt_tables v =
     (case v of (v14, v15, v16, v17) \<Rightarrow>
        (mtpz_aes_ft1 ! MTPZ_ENCRYPTIONBYTE3 v17 XOR mtpz_aes_ft2 ! MTPZ_ENCRYPTIONBYTE2 v16
           XOR mtpz_aes_ft3 ! MTPZ_ENCRYPTIONLOBYTE v14 XOR mtpz_aes_ft4 ! MTPZ_ENCRYPTIONBYTE1 v15,
         mtpz_aes_ft1 ! MTPZ_ENCRYPTIONBYTE3 v14 XOR mtpz_aes_ft2 ! MTPZ_ENCRYPTIONBYTE2 v17
           XOR mtpz_aes_ft3 ! MTPZ_ENCRYPTIONLOBYTE v15 XOR mtpz_aes_ft4 ! MTPZ_ENCRYPTIONBYTE1 v16,
         mtpz_aes_ft1 ! MTPZ_ENCRYPTIONBYTE3 v15 XOR mtpz_aes_ft2 ! MTPZ_ENCRYPTIONBYTE2 v14
           XOR mtpz_aes_ft3 ! MTPZ_ENCRYPTIONLOBYTE v16 XOR mtpz_aes_ft4 ! MTPZ_ENCRYPTIONBYTE1 v17,
         mtpz_aes_ft1 ! MTPZ_ENCRYPTIONBYTE3 v16 XOR mtpz_aes_ft2 ! MTPZ_ENCRYPTIONBYTE2 v15
           XOR mtpz_aes_ft3 ! MTPZ_ENCRYPTIONLOBYTE v17 XOR mtpz_aes_ft4 ! MTPZ_ENCRYPTIONBYTE1 v14))"

definition decrypt_tables :: "quad \<Rightarrow> quad" where
  "decrypt_tables v =
     (case v of (v14, v15, v16, v17) \<Rightarrow>
        (mtpz_aes_rt1 ! MTPZ_ENCRYPTIONBYTE3 v15 XOR mtpz_aes_rt2 ! MTPZ_ENCRYPTIONBYTE2 v16
           XOR mtpz_aes_rt3 ! MTPZ_ENCRYPTIONLOBYTE v14 XOR mtpz_aes_rt4 ! MTPZ_ENCRYPTIONBYTE1 v17,
         mtpz_aes_rt1 ! MTPZ_ENCRYPTIONBYTE3 v16 XOR mtpz_aes_rt2 ! MTPZ_ENCRYPTIONBYTE2 v17
           XOR mtpz_aes_rt3 ! MTPZ_ENCRYPTIONLOBYTE v15 XOR mtpz_aes_rt4 ! MTPZ_ENCRYPTIONBYTE1 v14,
         mtpz_aes_rt1 ! MTPZ_ENCRYPTIONBYTE3 v17 XOR mtpz_aes_rt2 ! MTPZ_ENCRYPTIONBYTE2 v14
           XOR mtpz_aes_rt3 ! MTPZ_ENCRYPTIONLOBYTE v16 XOR mtpz_aes_rt4 ! MTPZ_ENCRYPTIONBYTE1 v15,
         mtpz_aes_rt1 ! MTPZ_ENCRYPTIONBYTE3 v14 XOR mtpz_aes_rt2 ! MTPZ_ENCRYPTIONBYTE2 v15
           XOR mtpz_aes_rt3 ! MTPZ_ENCRYPTIONLOBYTE v17 XOR mtpz_aes_rt4 ! MTPZ_ENCRYPTIONBYTE1 v16))"

text \<open>\<open>FT3_Bytes[1 + 4 * x]\<close>: the second byte in memory of \<open>mtpz_aes_ft3[x]\<close>.\<close>

definition FT3_Bytes1 :: "nat \<Rightarrow> u32" where
  "FT3_Bytes1 x = ucast (ucast (drop_bit 8 (mtpz_aes_ft3 ! x)) :: byte)"

definition pack_bytes :: "u32 \<Rightarrow> u32 \<Rightarrow> u32 \<Rightarrow> u32 \<Rightarrow> u32" where
  "pack_bytes a b c d = push_bit 24 a OR push_bit 16 b OR push_bit 8 c OR d"

definition encrypt_last :: "quad \<Rightarrow> quad" where
  "encrypt_last v =
     (case v of (v14, v15, v16, v17) \<Rightarrow>
        (pack_bytes (FT3_Bytes1 (MTPZ_ENCRYPTIONLOBYTE v14)) (FT3_Bytes1 (MTPZ_ENCRYPTIONBYTE1 v15))
                    (FT3_Bytes1 (MTPZ_ENCRYPTIONBYTE2 v16)) (FT3_Bytes1 (MTPZ_ENCRYPTIONBYTE3 v17)),
         pack_bytes (FT3_Bytes1 (MTPZ_ENCRYPTIONLOBYTE v15)) (FT3_Bytes1 (MTPZ_ENCRYPTIONBYTE1 v16))
                    (FT3_Bytes1 (MTPZ_ENCRYPTIONBYTE2 v17)) (FT3_Bytes1 (MTPZ_ENCRYPTIONBYTE3 v14)),
         pack_bytes (FT3_Bytes1 (MTPZ_ENCRYPTIONLOBYTE v16)) (FT3_Bytes1 (MTPZ_ENCRYPTIONBYTE1 v17))
                    (FT3_Bytes1 (MTPZ_ENCRYPTIONBYTE2 v14)) (FT3_Bytes1 (MTPZ_ENCRYPTIONBYTE3 v15)),
         pack_bytes (FT3_Bytes1 (MTPZ_ENCRYPTIONLOBYTE v17)) (FT3_Bytes1 (MTPZ_ENCRYPTIONBYTE1 v14))
                    (FT3_Bytes1 (MTPZ_ENCRYPTIONBYTE2 v15)) (FT3_Bytes1 (MTPZ_ENCRYPTIONBYTE3 v16))))"

definition invsbox_at :: "nat \<Rightarrow> u32" where
  "invsbox_at x = ucast (mtpz_aes_invsbox ! x)"

definition decrypt_last :: "quad \<Rightarrow> quad" where
  "decrypt_last v =
     (case v of (v14, v15, v16, v17) \<Rightarrow>
        (pack_bytes (invsbox_at (MTPZ_ENCRYPTIONLOBYTE v14)) (invsbox_at (MTPZ_ENCRYPTIONBYTE1 v17))
                    (invsbox_at (MTPZ_ENCRYPTIONBYTE2 v16)) (invsbox_at (MTPZ_ENCRYPTIONBYTE3 v15)),
         pack_bytes (invsbox_at (MTPZ_ENCRYPTIONLOBYTE v15)) (invsbox_at (MTPZ_ENCRYPTIONBYTE1 v14))
                    (invsbox_at (MTPZ_ENCRYPTIONBYTE2 v17)) (invsbox_at (MTPZ_ENCRYPTIONBYTE3 v16)),
         pack_bytes (invsbox_at (MTPZ_ENCRYPTIONLOBYTE v16)) (invsbox_at (MTPZ_ENCRYPTIONBYTE1 v15))
                    (invsbox_at (MTPZ_ENCRYPTIONBYTE2 v14)) (invsbox_at (MTPZ_ENCRYPTIONBYTE3 v17)),
         pack_bytes (invsbox_at (MTPZ_ENCRYPTIONLOBYTE v17)) (invsbox_at (MTPZ_ENCRYPTIONBYTE1 v16))
                    (invsbox_at (MTPZ_ENCRYPTIONBYTE2 v15)) (invsbox_at (MTPZ_ENCRYPTIONBYTE3 v14))))"

text \<open>
  The \<open>do \<dots> while (rounds != 9)\<close> loop of the encryption starts at \<open>rounds = 1\<close> and
  the \<open>do \<dots> while (rounds != 1)\<close> loop of the decryption at \<open>rounds = 9\<close>: eight rounds
  each, whatever the key size. \<open>n\<close> is the number of rounds that remain.
\<close>

fun encrypt_rounds :: "nat \<Rightarrow> byte list \<Rightarrow> nat \<Rightarrow> quad \<Rightarrow> quad \<times> nat" where
  "encrypt_rounds 0 expanded keyOffset v = (v, keyOffset)"
| "encrypt_rounds (Suc n) expanded keyOffset v =
     encrypt_rounds n expanded (keyOffset + 16) (encrypt_tables (add_round_key expanded keyOffset v))"

fun decrypt_rounds :: "nat \<Rightarrow> byte list \<Rightarrow> nat \<Rightarrow> quad \<Rightarrow> quad \<times> nat" where
  "decrypt_rounds 0 expanded keyOffset v = (v, keyOffset)"
| "decrypt_rounds (Suc n) expanded keyOffset v =
     decrypt_rounds n expanded (keyOffset - 16) (decrypt_tables (add_round_key expanded keyOffset v))"

definition seed_words :: "byte list \<Rightarrow> quad" where
  "seed_words u_seed = (swapped_word u_seed 0, swapped_word u_seed 1, swapped_word u_seed 2, swapped_word u_seed 3)"

definition data_bytes :: "quad \<Rightarrow> byte list" where
  "data_bytes v = (case v of (a, b, c, d) \<Rightarrow>
     int_bytes (mtpz_bswap32 a) @ int_bytes (mtpz_bswap32 b) @ int_bytes (mtpz_bswap32 c) @ int_bytes (mtpz_bswap32 d))"

text \<open>
  \<open>mtpz_encryption_encrypt_custom(data, seed, expanded)\<close> and its counterpart return the
  16 bytes they write to \<open>data\<close>; \<open>seed\<close> is \<open>None\<close> for \<open>NULL\<close>. They are undefined
  where a buffer is shorter than what they read.
\<close>

definition mtpz_encryption_encrypt_custom :: "byte list \<Rightarrow> byte list option \<Rightarrow> byte list \<Rightarrow> byte list option" where
  "mtpz_encryption_encrypt_custom data seed expanded =
     (let u_seed = (case seed of None \<Rightarrow> data | Some s \<Rightarrow> s)
      in if length data < 16 \<or> length u_seed < 16 \<or> length expanded < 0x04 + 176 then None
         else
           let v = encrypt_tables (add_round_key expanded 0x04 (seed_words u_seed));
               (v, keyOffset) = encrypt_rounds 8 expanded (0x04 + 16) v;
               v = encrypt_last (add_round_key expanded keyOffset v)
           in Some (data_bytes (add_round_key expanded (keyOffset + 16) v)))"

definition mtpz_encryption_decrypt_custom :: "byte list \<Rightarrow> byte list option \<Rightarrow> byte list \<Rightarrow> byte list option" where
  "mtpz_encryption_decrypt_custom data seed expanded =
     (let u_seed = (case seed of None \<Rightarrow> data | Some s \<Rightarrow> s)
      in if length data < 16 \<or> length u_seed < 16 \<or> length expanded < 0xB4 + 0xA0 + 16 then None
         else
           let v = decrypt_tables (add_round_key expanded (0xB4 + 0xA0) (seed_words u_seed));
               (v, keyOffset) = decrypt_rounds 8 expanded (0xB4 + 0xA0 - 16) v;
               v = decrypt_last (add_round_key expanded keyOffset v)
           in Some (data_bytes (add_round_key expanded (keyOffset - 16) v)))"

subsection \<open>Modes\<close>

text \<open>
  The round count that \<open>mtpz_encryption_cipher_advanced\<close> and
  \<open>mtpz_encryption_encrypt_mac\<close> both compute into their local \<open>len\<close>:
  \<open>(key_len == 16) ? 10 : (key_len == 24) ? 12 : 32\<close>.
\<close>

definition cipher_len :: "nat \<Rightarrow> int" where
  "cipher_len key_len = (if key_len = 16 then 10 else if key_len = 24 then 12 else 32)"

text \<open>
  The loop \<open>while (count != 0)\<close> of \<open>mtpz_encryption_cipher_advanced\<close>. \<open>dtf\<close> is the
  chaining register of four words. The scratch block \<open>out\<close> is rewritten in full in
  every round (by the \<open>memset\<close> and \<open>memcpy\<close>) before it is read, so it is a local value
  of the round. The block functions write the 16 bytes at \<open>data + offset\<close> and the
  register is read back from there: undefined where \<open>data\<close> ends before.
\<close>

definition xor_swapped :: "byte list \<Rightarrow> u32 list \<Rightarrow> byte list" where
  "xor_swapped blk dtf =
     concat (map (\<lambda>k. int_bytes (load32 blk (4 * k) XOR mtpz_bswap32 (dtf ! k))) [0..<4])"

definition swapped_words :: "byte list \<Rightarrow> nat \<Rightarrow> u32 list" where
  "swapped_words u w = map (\<lambda>k. mtpz_bswap32 (load32 u (4 * (w + k)))) [0..<4]"

function cipher_blocks :: "byte list \<Rightarrow> bool \<Rightarrow> nat \<Rightarrow> nat \<Rightarrow> u32 list \<Rightarrow> byte list \<Rightarrow> byte list option" where
  "cipher_blocks expanded encrypt offset count dtf data =
     (if count = 0 then Some data
      else
        let chunk = (if count < 16 then count else 16)
        in if length data < offset + 16 then None
           else
             let out = take chunk (drop offset data) @ replicate (16 - chunk) 0
             in if encrypt then
                  do {
                    blk \<leftarrow> mtpz_encryption_encrypt_custom (take 16 (drop offset data))
                             (Some (xor_swapped out dtf)) expanded;
                    let data = poke data offset blk
                    in cipher_blocks expanded encrypt (offset + chunk) (count - chunk)
                         (swapped_words data (offset div 4)) data
                  }
                else
                  do {
                    blk \<leftarrow> mtpz_encryption_decrypt_custom (take 16 (drop offset data)) (Some out) expanded;
                    let data = poke data offset (xor_swapped blk dtf)
                    in cipher_blocks expanded encrypt (offset + chunk) (count - chunk)
                         (swapped_words out 0) data
                  })"
  by pat_completeness auto
termination
  by (relation "measure (\<lambda>(expanded, encrypt, offset, count, dtf, data). count)") auto

declare cipher_blocks.simps [simp del]

definition mtpz_encryption_cipher_advanced :: "byte list \<Rightarrow> nat \<Rightarrow> byte list \<Rightarrow> nat \<Rightarrow> bool \<Rightarrow> byte list option" where
  "mtpz_encryption_cipher_advanced key key_len data data_len encrypt =
     do {
       expanded \<leftarrow> mtpz_encryption_expand_key key key_len (cipher_len key_len);
       cipher_blocks expanded encrypt 0 data_len [0, 0, 0, 0] data
     }"

text \<open>
  \<open>mtpz_encryption_encrypt_mac(hash, hash_length, seed, seed_len, out)\<close> returns the
  contents of \<open>out\<close> after the call; \<open>hash\<close> is \<open>None\<close> for \<open>NULL\<close>.
\<close>

definition mac_shift :: "byte list \<Rightarrow> byte list" where
  "mac_shift l =
     (let r = map (\<lambda>i. 2 * l ! i OR drop_bit 7 (l ! (i + 1))) [0..<16] @ [0]
      in if 128 \<le> l ! 0 then r[15 := r ! 15 XOR 0x87] else r)"

definition mtpz_encryption_encrypt_mac :: "byte list option \<Rightarrow> nat \<Rightarrow> byte list \<Rightarrow> nat \<Rightarrow> byte list
    \<Rightarrow> byte list option" where
  "mtpz_encryption_encrypt_mac hash hash_length seed seed_len out =
     (case hash of
        None \<Rightarrow> Some out
      | Some h \<Rightarrow>
          if hash_length \<noteq> 16 then Some out
          else do {
            enc_hash \<leftarrow> mtpz_encryption_cipher_advanced h hash_length (replicate 17 0) 16 True;
            let loop1 = mac_shift enc_hash;
                loop2 = mac_shift loop1
            in do {
              expanded \<leftarrow> mtpz_encryption_expand_key h hash_length (cipher_len hash_length);
              actual_seed \<leftarrow>
                (if seed_len = 16 then
                   (if length seed < 16 then None
                    else Some (map (\<lambda>i. seed ! i XOR loop1 ! i) [0..<16]))
                 else
                   (if 16 \<le> seed_len \<or> length seed < seed_len then None
                    else Some (map (\<lambda>i. ((take seed_len seed @ [128] @ replicate 16 0) ! i) XOR loop2 ! i) [0..<16])));
              blk \<leftarrow> mtpz_encryption_encrypt_custom (take 16 out) (Some actual_seed) expanded;
              Some (poke out 0 blk)
            }
          })"

section \<open>Secrets loader\<close>

text \<open>
  The C library calls of the loader, modelled from their documented behaviour. A stream
  is the list of characters still to be read. \<open>fgets(str, num, stream)\<close> reads at most
  \<open>num - 1\<close> characters, stops after a newline, and returns \<open>NULL\<close> (\<open>None\<close>) when the
  stream is at its end; it returns what it read and the rest of the stream.
\<close>

definition fgets :: "nat \<Rightarrow> string \<Rightarrow> (string \<times> string) option" where
  "fgets num stream =
     (if stream = [] then None
      else
        let line = takeWhile (\<lambda>c. c \<noteq> CHR 0x0A) stream;
            line = (if length line < length stream then line @ [CHR 0x0A] else line);
            got = take (num - 1) line
        in Some (got, drop (length got) stream))"

text \<open>
  \<open>fgets_strip(str, num, stream)\<close> returns the C string that \<open>str\<close> holds afterwards
  (\<open>None\<close> for the \<open>NULL\<close> of \<open>fgets\<close>) and the rest of the stream. The string ends
  at the first NUL character that was read and loses a final newline. Where it is empty,
  which is where the line starts with a NUL character, the source tests
  \<open>result[newlen - 1]\<close> in front of the buffer: that is undefined, and the result is
  \<open>None\<close>.
\<close>

definition fgets_strip :: "nat \<Rightarrow> string \<Rightarrow> (string option \<times> string) option" where
  "fgets_strip num stream =
     (case fgets num stream of
        None \<Rightarrow> Some (None, stream)
      | Some (got, rest) \<Rightarrow>
          let result = takeWhile (\<lambda>c. c \<noteq> CHR 0x00) got
          in if result = [] then None
             else Some (Some (if last result = CHR 0x0A then butlast result else result), rest))"

definition hex_digit :: "char \<Rightarrow> nat option" where
  "hex_digit c =
     (let n = of_char c :: nat
      in if 48 \<le> n \<and> n \<le> 57 then Some (n - 48)
         else if 97 \<le> n \<and> n \<le> 102 then Some (n - 87)
         else if 65 \<le> n \<and> n \<le> 70 then Some (n - 55)
         else None)"

definition is_space :: "char \<Rightarrow> bool" where
  "is_space c = (of_char c \<in> {32, 9, 10, 11, 12, 13 :: nat})"

text \<open>
  \<open>sscanf(s, "%2x", &u) == 1\<close>, with the value stored to \<open>u\<close> as the byte that the
  assignment \<open>bytes[i / 2] = u\<close> keeps: white space is skipped, then at most two
  characters are read, an optional sign and hexadecimal digits; \<open>None\<close> when no digit
  is converted.
\<close>

definition sscanf_2x :: "string \<Rightarrow> byte option" where
  "sscanf_2x s =
     (case dropWhile is_space s of
        [] \<Rightarrow> None
      | c1 # r \<Rightarrow>
          (case hex_digit c1 of
             Some d1 \<Rightarrow>
               (case r of
                  [] \<Rightarrow> Some (word_of_nat d1)
                | c2 # _ \<Rightarrow>
                    (case hex_digit c2 of
                       Some d2 \<Rightarrow> Some (word_of_nat (16 * d1 + d2))
                     | None \<Rightarrow> Some (word_of_nat d1)))
           | None \<Rightarrow>
               if c1 = CHR ''+'' \<or> c1 = CHR ''-'' then
                 (case r of
                    [] \<Rightarrow> None
                  | c2 # _ \<Rightarrow>
                      (case hex_digit c2 of
                         Some d2 \<Rightarrow> Some (if c1 = CHR ''-'' then - word_of_nat d2 else word_of_nat d2)
                       | None \<Rightarrow> None))
               else None))"

text \<open>
  \<open>hex_to_bytes(hex, len)\<close>. The buffer of \<open>len / 2\<close> bytes comes from \<open>malloc\<close>: a byte
  that the loop never writes is \<open>None\<close>. The loop \<open>while (i < len && sscanf(\<dots>) == 1)\<close>
  runs at most \<open>len / 2\<close> times, \<open>n\<close> being the rounds that remain. The result is
  \<open>None\<close> for \<open>NULL\<close>.
\<close>

fun hex_to_bytes_loop :: "nat \<Rightarrow> string \<Rightarrow> nat \<Rightarrow> byte option list \<Rightarrow> byte option list" where
  "hex_to_bytes_loop 0 hex i bytes = bytes"
| "hex_to_bytes_loop (Suc n) hex i bytes =
     (case sscanf_2x (drop i hex) of
        None \<Rightarrow> bytes
      | Some u \<Rightarrow> hex_to_bytes_loop n hex (i + 2) (bytes[i div 2 := Some u]))"

definition hex_to_bytes :: "string \<Rightarrow> nat \<Rightarrow> byte option list option" where
  "hex_to_bytes hex len =
     (if len mod 2 \<noteq> 0 then None
      else Some (hex_to_bytes_loop (len div 2) hex 0 (replicate (len div 2) None)))"

text \<open>The five globals; \<open>None\<close> is the \<open>NULL\<close> they start with.\<close>

record mtpz_data =
  MTPZ_ENCRYPTION_KEY :: "byte option list option"
  MTPZ_PUBLIC_EXPONENT :: "string option"
  MTPZ_MODULUS :: "string option"
  MTPZ_PRIVATE_KEY :: "string option"
  MTPZ_CERTIFICATES :: "byte option list option"

definition no_data :: mtpz_data where
  "no_data = \<lparr>MTPZ_ENCRYPTION_KEY = None, MTPZ_PUBLIC_EXPONENT = None, MTPZ_MODULUS = None,
              MTPZ_PRIVATE_KEY = None, MTPZ_CERTIFICATES = None\<rparr>"

text \<open>
  \<open>mtpz_loaddata()\<close> reads the environment variable \<open>HOME\<close> (\<open>home\<close>) and opens a
  file (\<open>fopen\<close> maps a path to the file's contents, \<open>None\<close> when it cannot be opened).
  It returns \<open>ret\<close> and the globals as it leaves them, and is undefined (\<open>None\<close>) where
  a call of \<open>fgets_strip\<close> is.
\<close>

definition mtpz_loaddata :: "string option \<Rightarrow> (string \<Rightarrow> string option) \<Rightarrow> (int \<times> mtpz_data) option" where
  "mtpz_loaddata home fopen =
     (case home of
        None \<Rightarrow> Some (-1, no_data)
      | Some h \<Rightarrow>
     (case fopen (h @ ''/.mtpz-data'') of
        None \<Rightarrow> Some (-1, no_data)
      | Some fdata \<Rightarrow>
     (case fgets_strip 8 fdata of
        None \<Rightarrow> None
      | Some (None, fdata) \<Rightarrow> Some (-1, no_data)
      | Some (Some e, fdata) \<Rightarrow>
     let g = no_data\<lparr>MTPZ_PUBLIC_EXPONENT := Some e\<rparr> in
     (case fgets_strip 35 fdata of
        None \<Rightarrow> None
      | Some (None, fdata) \<Rightarrow> Some (-1, g)
      | Some (Some hexenckey, fdata) \<Rightarrow>
     (case hex_to_bytes hexenckey (length hexenckey) of
        None \<Rightarrow> Some (-1, g)
      | Some k \<Rightarrow>
     let g = g\<lparr>MTPZ_ENCRYPTION_KEY := Some k\<rparr> in
     (case fgets_strip 260 fdata of
        None \<Rightarrow> None
      | Some (None, fdata) \<Rightarrow> Some (-1, g)
      | Some (Some m, fdata) \<Rightarrow>
     let g = g\<lparr>MTPZ_MODULUS := Some m\<rparr> in
     (case fgets_strip 260 fdata of
        None \<Rightarrow> None
      | Some (None, fdata) \<Rightarrow> Some (-1, g)
      | Some (Some p, fdata) \<Rightarrow>
     let g = g\<lparr>MTPZ_PRIVATE_KEY := Some p\<rparr> in
     (case fgets_strip 1260 fdata of
        None \<Rightarrow> None
      | Some (None, fdata) \<Rightarrow> Some (-1, g)
      | Some (Some hexcerts, fdata) \<Rightarrow>
     (case hex_to_bytes hexcerts (length hexcerts) of
        None \<Rightarrow> Some (-1, g)
      | Some c \<Rightarrow> Some (0, g\<lparr>MTPZ_CERTIFICATES := Some c\<rparr>))))))))))"

text \<open>A line of hexadecimal digit pairs, and the bytes it stands for.\<close>

fun hex_pairs :: "string \<Rightarrow> byte list option" where
  "hex_pairs [] = Some []"
| "hex_pairs [c] = None"
| "hex_pairs (c1 # c2 # r) =
     (case (hex_digit c1, hex_digit c2, hex_pairs r) of
        (Some d1, Some d2, Some bs) \<Rightarrow> Some (word_of_nat (16 * d1 + d2) # bs)
      | _ \<Rightarrow> None)"

text \<open>
  The five lines as \<open>mtpz_loaddata\<close> reads them, one \<open>fgets_strip\<close> after the other,
  each of them defined and not \<open>NULL\<close>.
\<close>

definition read_line :: "nat \<Rightarrow> string \<Rightarrow> (string \<times> string) option" where
  "read_line num stream =
     (case fgets_strip num stream of
        None \<Rightarrow> None
      | Some (None, rest) \<Rightarrow> None
      | Some (Some line, rest) \<Rightarrow> Some (line, rest))"

definition secrets_lines :: "string \<Rightarrow> (string \<times> string \<times> string \<times> string \<times> string) option" where
  "secrets_lines fdata =
     do {
       (e, r) \<leftarrow> read_line 8 fdata;
       (k, r) \<leftarrow> read_line 35 r;
       (m, r) \<leftarrow> read_line 260 r;
       (p, r) \<leftarrow> read_line 260 r;
       (c, r) \<leftarrow> read_line 1260 r;
       Some (e, k, m, p, c)
     }"

section \<open>Notions used in the proofs about the block functions\<close>

text \<open>Componentwise exclusive-or of two states, and the round key read at an offset.\<close>

definition xor_quad :: "quad \<Rightarrow> quad \<Rightarrow> quad" where
  "xor_quad v k = (case v of (a, b, c, d) \<Rightarrow> case k of (a', b', c', d') \<Rightarrow>
     (a XOR a', b XOR b', c XOR c', d XOR d'))"

definition round_key :: "byte list \<Rightarrow> nat \<Rightarrow> quad" where
  "round_key expanded keyOffset =
     (swapped_word expanded (keyOffset div 4), swapped_word expanded ((keyOffset + 4) div 4),
      swapped_word expanded ((keyOffset + 8) div 4), swapped_word expanded ((keyOffset + 12) div 4))"

text \<open>
  What the inverse-mix-columns pass does to one word of the schedule, on the word as
  the block functions read it.
\<close>

definition imc :: "u32 \<Rightarrow> u32" where
  "imc w = mtpz_aes_gb14 ! MTPZ_ENCRYPTIONLOBYTE w XOR mtpz_aes_gb11 ! MTPZ_ENCRYPTIONBYTE1 w
           XOR mtpz_aes_gb13 ! MTPZ_ENCRYPTIONBYTE2 w XOR mtpz_aes_gb9 ! MTPZ_ENCRYPTIONBYTE3 w"

definition imc_quad :: "quad \<Rightarrow> quad" where
  "imc_quad v = (case v of (a, b, c, d) \<Rightarrow> (imc a, imc b, imc c, imc d))"

text \<open>A table entry as the exclusive-or of the entries at the set bits of its index.\<close>

definition bit_sum :: "u32 list \<Rightarrow> byte \<Rightarrow> u32" where
  "bit_sum t x =
     (if bit x 0 then t ! 1 else 0) XOR (if bit x 1 then t ! 2 else 0) XOR
     (if bit x 2 then t ! 4 else 0) XOR (if bit x 3 then t ! 8 else 0) XOR
     (if bit x 4 then t ! 16 else 0) XOR (if bit x 5 then t ! 32 else 0) XOR
     (if bit x 6 then t ! 64 else 0) XOR (if bit x 7 then t ! 128 else 0)"

text \<open>The state after the round-key addition of round \<open>r + n\<close>, from the one of round \<open>r\<close>.\<close>

fun forward_rounds :: "byte list \<Rightarrow> nat \<Rightarrow> nat \<Rightarrow> quad \<Rightarrow> quad" where
  "forward_rounds expanded 0 r y = y"
| "forward_rounds expanded (Suc n) r y =
     xor_quad (encrypt_tables (forward_rounds expanded n r y)) (round_key expanded (4 + 16 * (r + n + 1)))"

lemma length_poke: "a + length bs \<le> length m \<Longrightarrow> length (poke m a bs) = length m"
  by (simp add: poke_def)
lemma length_int_bytes: "length (int_bytes w) = 4"
  by (simp add: int_bytes_def)
lemma length_store32: "a + 4 \<le> length m \<Longrightarrow> length (store32 m a w) = length m"
  by (simp add: store32_def length_poke length_int_bytes)
lemma nth_poke: "a + length bs \<le> length m \<Longrightarrow> i < length m \<Longrightarrow>
  poke m a bs ! i = (if a \<le> i \<and> i < a + length bs then bs ! (i - a) else m ! i)"
  by (auto simp: poke_def nth_append min_def)
lemma load32_int_bytes: "load32 (int_bytes w) 0 = w"
proof (rule bit_word_eqI)
  fix n assume "n < LENGTH(32)"
  then consider "n < 8" | "8 \<le> n \<and> n < 16" | "16 \<le> n \<and> n < 24" | "24 \<le> n \<and> n < 32"
    by force
  then show "bit (load32 (int_bytes w) 0) n = bit w n"
    unfolding load32_def int_bytes_def
    by cases (auto simp: bit_simps)
qed
lemma load32_cong: "m ! a = n ! b \<Longrightarrow> m ! (a + 1) = n ! (b + 1) \<Longrightarrow> m ! (a + 2) = n ! (b + 2)
  \<Longrightarrow> m ! (a + 3) = n ! (b + 3) \<Longrightarrow> load32 m a = load32 n b"
  by (simp add: load32_def)
lemma load32_store32_same: "a + 4 \<le> length m \<Longrightarrow> load32 (store32 m a w) a = w"
proof -
  assume a: "a + 4 \<le> length m"
  have "load32 (store32 m a w) a = load32 (int_bytes w) 0"
    using a by (intro load32_cong) (simp_all add: store32_def nth_poke length_int_bytes, simp_all add: int_bytes_def)
  then show ?thesis by (simp add: load32_int_bytes)
qed
lemma load32_store32_other: "a + 4 \<le> length m \<Longrightarrow> b + 4 \<le> length m \<Longrightarrow> b + 4 \<le> a \<or> a + 4 \<le> b
  \<Longrightarrow> load32 (store32 m a w) b = load32 m b"
  by (intro load32_cong) (auto simp: store32_def nth_poke length_int_bytes)
lemma length_set_state_box: "length st = 92 \<Longrightarrow> k < 7 \<Longrightarrow> length (set_state_box st k w) = 92"
  by (simp add: set_state_box_def length_store32)
lemma state_box_set_same: "length st = 92 \<Longrightarrow> k < 7 \<Longrightarrow> state_box (set_state_box st k w) k = w"
  by (simp add: set_state_box_def state_box_def load32_store32_same)
lemma state_box_set_other: "length st = 92 \<Longrightarrow> k < 7 \<Longrightarrow> k' < 7 \<Longrightarrow> k \<noteq> k' \<Longrightarrow>
  state_box (set_state_box st k w) k' = state_box st k'"
  unfolding set_state_box_def state_box_def
  by (rule load32_store32_other) auto
lemma length_compute_hash: "length st = 92 \<Longrightarrow> length (mtpz_hash_compute_hash st m n) = 92"
  by (simp add: mtpz_hash_compute_hash_def Let_def length_set_state_box split: prod.splits)
lemma state_box_compute_hash: "length st = 92 \<Longrightarrow> 5 \<le> k \<Longrightarrow> k < 7 \<Longrightarrow>
  state_box (mtpz_hash_compute_hash st m n) k = state_box st k"
  by (simp add: mtpz_hash_compute_hash_def Let_def length_set_state_box state_box_set_other split: prod.splits)
lemma length_reset: "length st = 92 \<Longrightarrow> length (mtpz_hash_reset_state st) = 92"
  by (simp add: mtpz_hash_reset_state_def length_set_state_box)
lemma state_box_reset_6: "length st = 92 \<Longrightarrow> state_box (mtpz_hash_reset_state st) 6 = 0"
  by (simp add: mtpz_hash_reset_state_def length_set_state_box state_box_set_same)

lemma sint_of_nat_u32: "n < 2 ^ 31 \<Longrightarrow> sint (word_of_nat n :: u32) = int n"
  by (simp add: signed_of_nat signed_take_bit_int_eq_self)
lemma unat_of_nat_u32: "n < 2 ^ 32 \<Longrightarrow> unat (word_of_nat n :: u32) = n"
  by (simp add: unat_of_nat)
lemma sless_of_nat_u32: "n < 2 ^ 31 \<Longrightarrow> (63 <s (word_of_nat n :: u32)) = (63 < n)"
  by (simp add: word_sless_alt sint_of_nat_u32)
lemma hash_blocks_total:
  "length st = 92 \<Longrightarrow> m + n \<le> length msg \<Longrightarrow> m + n < 2 ^ 31 \<Longrightarrow>
   \<exists>st'. hash_blocks st msg (word_of_nat n) (word_of_nat m)
           = Some (st', word_of_nat (n mod 64), word_of_nat (m + n - n mod 64)) \<and> length st' = 92"
proof (induction n arbitrary: st m rule: less_induct)
  case (less n)
  show ?case
  proof (cases "63 < n")
    case False
    with less.prems show ?thesis
      by (subst hash_blocks.simps) (simp add: sless_of_nat_u32)
  next
    case True
    let ?st = "mtpz_hash_compute_hash st (take 64 (drop (unat (word_of_nat m :: u32)) msg)) 64"
    have n31: "n < 2 ^ 31" and m32: "m < 2 ^ 32" using less.prems by auto
    have len: "length ?st = 92" using less.prems by (simp add: length_compute_hash)
    have "\<exists>st'. hash_blocks ?st msg (word_of_nat (n - 64)) (word_of_nat (m + 64))
           = Some (st', word_of_nat ((n - 64) mod 64), word_of_nat (m + 64 + (n - 64) - (n - 64) mod 64))
           \<and> length st' = 92"
      using True less.prems by (intro less.IH len) auto
    then obtain st' where r: "hash_blocks ?st msg (word_of_nat (n - 64)) (word_of_nat (m + 64))
           = Some (st', word_of_nat ((n - 64) mod 64), word_of_nat (m + 64 + (n - 64) - (n - 64) mod 64))"
        and l: "length st' = 92" by blast
    have e1: "(n - 64) mod 64 = n mod 64" using True by (simp add: le_mod_geq)
    have e2: "m + 64 + (n - 64) = m + n" using True by simp
    have e3: "(word_of_nat n :: u32) - 64 = word_of_nat (n - 64)" using True by simp
    have e4: "(word_of_nat m :: u32) + 64 = word_of_nat (m + 64)" by simp
    have c1: "63 <s (word_of_nat n :: u32)" using True n31 by (simp add: sless_of_nat_u32)
    have c2: "unat (word_of_nat m :: u32) + 64 \<le> length msg"
      using True less.prems m32 by (simp add: unat_of_nat_u32)
    have "hash_blocks st msg (word_of_nat n) (word_of_nat m)
          = hash_blocks ?st msg (word_of_nat n - 64) (word_of_nat m + 64)"
      by (subst hash_blocks.simps) (simp only: c1 c2 if_True)
    also have "\<dots> = Some (st', word_of_nat (n mod 64), word_of_nat (m + n - n mod 64))"
      unfolding e3 e4 r e1 e2 ..
    finally show ?thesis using l by blast
  qed
qed

lemma length_copy_in: "copy_in dst doff src soff n = Some d \<Longrightarrow> length d = length dst"
  by (auto simp: copy_in_def length_poke split: if_splits)
lemma copy_in_ok: "doff + n \<le> length dst \<Longrightarrow> soff + n \<le> length src \<Longrightarrow>
  \<exists>d. copy_in dst doff src soff n = Some d \<and> length d = length dst"
  by (auto simp: copy_in_def length_poke)
lemma unat_and_63: "unat ((w :: u32) AND 0x3F) < 64"
proof -
  have "w AND 0x3F \<le> 0x3F" by (rule word_and_le1)
  then have "unat (w AND 0x3F) \<le> unat (0x3F :: u32)" by (simp add: word_le_nat_alt)
  then show ?thesis by simp
qed
lemma state_box_copy_in:
  assumes "copy_in dst doff src soff n = Some d" "doff + n \<le> 64" "length dst = 92" "k < 7"
  shows "state_box d k = state_box dst k"
proof (cases "n = 0")
  case True
  then show ?thesis using assms by (simp add: copy_in_def)
next
  case False
  then have d: "d = poke dst doff (take n (drop soff src))" and s: "soff + n \<le> length src"
    using assms by (auto simp: copy_in_def split: if_splits)
  have l: "length (take n (drop soff src)) = n" using s by simp
  show ?thesis
    unfolding state_box_def d
    using assms l by (intro load32_cong) (simp_all add: nth_poke)
qed
lemma state_box_hash_blocks:
  "hash_blocks st msg i j = Some (st', i', j') \<Longrightarrow> length st = 92 \<Longrightarrow> 5 \<le> k \<Longrightarrow> k < 7 \<Longrightarrow>
   state_box st' k = state_box st k"
proof (induction st msg i j rule: hash_blocks.induct)
  case (1 st msg i j)
  show ?case
  proof (cases "63 <s i")
    case False
    then show ?thesis using "1.prems" by (simp add: hash_blocks.simps [of st msg i j])
  next
    case True
    let ?st = "mtpz_hash_compute_hash st (take 64 (drop (unat j) msg)) 64"
    have b: "unat j + 64 \<le> length msg"
      using True "1.prems" by (simp add: hash_blocks.simps [of st msg i j] split: if_splits)
    then have r: "hash_blocks ?st msg (i - 64) (j + 64) = Some (st', i', j')"
      using True "1.prems" by (simp add: hash_blocks.simps [of st msg i j])
    have "state_box st' k = state_box ?st k"
      using "1.IH" [OF True b r] "1.prems" by (simp add: length_compute_hash)
    then show ?thesis using "1.prems" by (simp add: state_box_compute_hash)
  qed
qed
lemma transform_result:
  assumes st: "length st = 92" and n: "n \<le> length msg" and nx31: "n + x < 2 ^ 31"
    and x: "x = unat (state_box st 6 AND 0x3F)"
    and fit: "x = 0 \<or> n + x \<le> 63 \<or> (n + x) mod 64 = 0"
  shows "\<exists>st'. mtpz_hash_transform_hash st msg (word_of_nat n) = Some st' \<and> length st' = 92 \<and>
           state_box st' 6 = word_of_nat n + state_box st 6 \<and>
           state_box st' 5 = (if word_of_nat n + state_box st 6 <s word_of_nat n
                              then state_box st 5 + 1 else state_box st 5)"
proof -
  let ?xw = "state_box st 6 AND 0x3F"
  let ?len = "word_of_nat n :: u32"
  let ?v5 = "?len + state_box st 6"
  let ?st1 = "set_state_box st 6 ?v5"
  define st2 where "st2 = (if ?v5 <s ?len then set_state_box ?st1 5 (state_box ?st1 5 + 1) else ?st1)"
  have x64: "x < 64" using x unat_and_63 by simp
  have xw: "?xw = word_of_nat x" using x by simp
  have st2: "length st2 = 92" unfolding st2_def using st by (simp add: length_set_state_box)
  have ux: "unat (word_of_nat x :: u32) = x" using x64 by (simp add: unat_of_nat_u32)
  have lx: "?len + word_of_nat x = word_of_nat (n + x)" by simp
  have n31: "n < 2 ^ 31" using nx31 by simp
  have b6: "state_box st2 6 = ?v5"
    unfolding st2_def using st
    by (simp add: state_box_set_same state_box_set_other length_set_state_box)
  have b5: "state_box st2 5 = (if ?v5 <s ?len then state_box st 5 + 1 else state_box st 5)"
    unfolding st2_def using st
    by (simp add: state_box_set_same state_box_set_other length_set_state_box)
  have cnd: "(0x3F <s ?len + word_of_nat x) = (63 < n + x)"
    unfolding lx using nx31 sless_of_nat_u32 [of "n + x"] by simp
  have x0: "((word_of_nat x :: u32) \<noteq> 0) = (x \<noteq> 0)"
    using ux by (metis unat_eq_0)
  show ?thesis
  proof (cases "x \<noteq> 0 \<and> 63 < n + x")
    case True
    have u64: "unat (64 - word_of_nat x :: u32) = 64 - x"
    proof -
      have "(word_of_nat x :: u32) \<le> 64" using x64 ux by (simp add: word_le_nat_alt)
      then show ?thesis using ux by (simp add: unat_sub)
    qed
    have ct: "(word_of_nat x :: u32) \<noteq> 0 \<and> 0x3F <s ?len + word_of_nat x"
      using True cnd x0 by blast
    have u64': "unat (word_of_nat (64 - x) :: u32) = 64 - x"
      by (simp add: unat_of_nat_u32)
    obtain s' where c: "copy_in st2 x msg 0 (64 - x) = Some s'" and ls': "length s' = 92"
    proof -
      have "x + (64 - x) \<le> length st2" "0 + (64 - x) \<le> length msg"
        using st2 x64 n True by arith+
      from copy_in_ok [OF this] st2 that show thesis by auto
    qed
    let ?s3 = "mtpz_hash_compute_hash s' (take 64 s') 64"
    have l3: "length ?s3 = 92" using ls' by (simp add: length_compute_hash)
    have i: "?len + word_of_nat x - 64 = word_of_nat (n + x - 64)" unfolding lx using True by simp
    have j: "64 - word_of_nat x = (word_of_nat (64 - x) :: u32)" using x64 by simp
    have r0: "(n + x - 64) mod 64 = 0" using fit True by (auto simp: le_mod_geq)
    obtain s4 where hb: "hash_blocks ?s3 msg (word_of_nat (n + x - 64)) (word_of_nat (64 - x))
        = Some (s4, word_of_nat ((n + x - 64) mod 64), word_of_nat (64 - x + (n + x - 64) - (n + x - 64) mod 64))"
      and l4: "length s4 = 92"
    proof -
      have "64 - x + (n + x - 64) \<le> length msg" "64 - x + (n + x - 64) < 2 ^ 31"
        using n nx31 x64 True by simp_all
      from hash_blocks_total [OF l3 this] that show thesis by blast
    qed
    have "mtpz_hash_transform_hash st msg ?len = Some s4"
      unfolding mtpz_hash_transform_hash_def Let_def
      apply (fold st2_def)
      unfolding xw
      apply (simp only: ct simp_thms if_True ux i j)
      apply (simp only: u64' c Option.bind.simps prod.case hb r0)
      apply simp
      done
    moreover have "state_box s4 k = state_box st2 k" if "5 \<le> k" "k < 7" for k
    proof -
      have "state_box s4 k = state_box ?s3 k"
        using hb l3 that by (rule state_box_hash_blocks)
      also have "\<dots> = state_box s' k"
        using ls' that by (simp add: state_box_compute_hash)
      also have "\<dots> = state_box st2 k"
        using c _ st2 that(2) by (rule state_box_copy_in) (use x64 in simp)
      finally show ?thesis .
    qed
    ultimately show ?thesis using l4 b5 b6 by auto
  next
    case False
    obtain s4 where hb: "hash_blocks st2 msg (word_of_nat n) (word_of_nat 0)
        = Some (s4, word_of_nat (n mod 64), word_of_nat (0 + n - n mod 64))"
      and l4: "length s4 = 92"
    proof -
      have "0 + n \<le> length msg" "0 + n < 2 ^ 31" using n n31 by simp_all
      from hash_blocks_total [OF st2 this] that show thesis by blast
    qed
    have cf: "\<not> ((word_of_nat x :: u32) \<noteq> 0 \<and> 0x3F <s ?len + word_of_nat x)"
      using False cnd x0 by blast
    have hb0: "hash_blocks st2 msg (word_of_nat n) 0 = Some (s4, word_of_nat (n mod 64), word_of_nat (n - n mod 64))"
      using hb by simp
    have r: "n mod 64 < 64" by simp
    have ri: "nat (sint (word_of_nat (n mod 64) :: u32)) = n mod 64"
      by (simp add: sint_of_nat_u32)
    have rj: "unat (word_of_nat (n - n mod 64) :: u32) = n - n mod 64"
      using n31 by (simp add: unat_of_nat_u32 del: of_nat_diff)
    have rz: "((word_of_nat (n mod 64) :: u32) = 0) = (n mod 64 = 0)"
    proof -
      have "unat (word_of_nat (n mod 64) :: u32) = n mod 64" by (simp add: unat_of_nat_u32)
      then show ?thesis by (metis unat_eq_0)
    qed
    have fits64: "x + n mod 64 \<le> 64"
    proof (cases "x = 0")
      case True then show ?thesis using r by simp
    next
      case nz: False
      then have "n + x \<le> 63" using False by simp
      then show ?thesis by simp
    qed
    then have fits: "x + n mod 64 \<le> 92" by simp
    obtain s5 where c: "copy_in s4 x msg (n - n mod 64) (n mod 64) = Some s5" and l5: "length s5 = 92"
    proof -
      have "x + n mod 64 \<le> length s4" "n - n mod 64 + n mod 64 \<le> length msg"
        using l4 fits n by simp_all
      from copy_in_ok [OF this] l4 that show thesis by auto
    qed
    have "mtpz_hash_transform_hash st msg ?len = Some (if n mod 64 \<noteq> 0 then s5 else s4)"
      unfolding mtpz_hash_transform_hash_def Let_def
      apply (fold st2_def)
      unfolding xw
      apply (simp only: cf if_False)
      apply (simp only: Option.bind.simps prod.case hb0 ux)
      apply (simp only: ri rj rz c)
      apply simp
      done
    moreover have k4: "state_box s4 k = state_box st2 k" if "5 \<le> k" "k < 7" for k
      using hb st2 that by (rule state_box_hash_blocks)
    moreover have "state_box s5 k = state_box st2 k" if "5 \<le> k" "k < 7" for k
    proof -
      have "state_box s5 k = state_box s4 k"
        using c fits64 l4 that(2) by (rule state_box_copy_in)
      then show ?thesis using k4 that by simp
    qed
    ultimately show ?thesis using l4 l5 b5 b6 by auto
  qed
qed
lemma transform_total:
  assumes st: "length st = 92" and n: "n \<le> length msg" "n < 2 ^ 30"
    and x: "x = unat (state_box st 6 AND 0x3F)"
    and fit: "x = 0 \<or> n + x \<le> 63 \<or> (n + x) mod 64 = 0"
  shows "\<exists>st'. mtpz_hash_transform_hash st msg (word_of_nat n) = Some st' \<and> length st' = 92"
proof -
  have "x < 64" using x unat_and_63 by simp
  then have "n + x < 2 ^ 31" using n by simp
  from transform_result [OF st n(1) this x fit] show ?thesis by blast
qed

lemma length_digest: "length (concat (map (\<lambda>k. int_bytes (f k)) [0..<5])) = 20"
  by (simp add: length_int_bytes upt_rec)
lemma finalize_total:
  assumes st: "length st = 92"
  shows "\<exists>st' out. mtpz_hash_finalize_hash st = Some (st', out) \<and> length st' = 92 \<and> length out = 20"
proof -
  define x where "x = unat (state_box st 6 AND 0x3F)"
  have x64: "x < 64" unfolding x_def by (rule unat_and_63)
  have xw: "state_box st 6 AND 0x3F = word_of_nat x" by (simp add: x_def)
  define k where "k = (if 64 - x \<le> 8 then 128 - x else 64 - x)"
  have k: "9 \<le> k" "k \<le> 72" "(k + x) mod 64 = 0" using x64 by (auto simp: k_def)
  have s64: "sint (word_of_nat (64 - x) :: u32) = int (64 - x)"
    by (rule sint_of_nat_u32) simp
  have a: "64 - (word_of_nat x :: u32) = word_of_nat (64 - x)" using x64 by simp
  have b: "(word_of_nat (64 - x) :: u32) + 64 = word_of_nat (128 - x)" using x64 by simp
  have c: "((word_of_nat (64 - x) :: u32) \<le>s 8) = (64 - x \<le> 8)"
    by (simp add: word_sle_eq s64 del: of_nat_diff)
  have v2: "(if (word_of_nat (64 - x) :: u32) \<le>s 8 then word_of_nat (64 - x) + 64 else word_of_nat (64 - x))
            = (word_of_nat k :: u32)"
    unfolding b c k_def by (rule if_distrib [symmetric])
  have uk: "unat (word_of_nat k :: u32) = k" using k by (simp add: unat_of_nat_u32)
  define v5 where "v5 = store32 (store32 (poke (replicate 72 0) 0 [0x80]) (k - 8)
      (mtpz_bswap32 (8 * state_box st 5 OR signed_drop_bit 29 (state_box st 6)))) (k - 4)
      (mtpz_bswap32 (8 * state_box st 6))"
  have lv5: "length v5 = 72" unfolding v5_def using k
    by (simp add: length_store32 length_poke)
  obtain s1 where t: "mtpz_hash_transform_hash st v5 (word_of_nat k) = Some s1" and l1: "length s1 = 92"
  proof -
    have "k \<le> length v5" "k < 2 ^ 30" using k lv5 by simp_all
    from transform_total [OF st this x_def] k that show thesis by blast
  qed
  have "mtpz_hash_finalize_hash st = Some (mtpz_hash_reset_state (poke s1 0 (replicate 64 0)),
          concat (map (\<lambda>k. int_bytes (mtpz_bswap32 (state_box s1 k))) [0..<5]))"
    unfolding mtpz_hash_finalize_hash_def Let_def xw a v2 uk
    apply (fold v5_def)
    apply (simp only: t Option.bind.simps)
    done
  moreover have "length (mtpz_hash_reset_state (poke s1 0 (replicate 64 0))) = 92"
    using l1 by (simp add: length_reset length_poke)
  ultimately show ?thesis
    using length_digest [of "\<lambda>k. mtpz_bswap32 (state_box s1 k)"] by simp
qed

lemma hash_session_total:
  assumes "length st = 92" "length msg < 2 ^ 30"
  shows "\<exists>st' out. hash_session st msg = Some (st', out) \<and> length st' = 92 \<and> length out = 20"
proof -
  let ?r = "mtpz_hash_reset_state st"
  have lr: "length ?r = 92" using assms by (simp add: length_reset)
  have x: "0 = unat (state_box ?r 6 AND 0x3F)" using assms by (simp add: state_box_reset_6)
  obtain s1 where t: "mtpz_hash_transform_hash ?r msg (word_of_nat (length msg)) = Some s1"
    and l1: "length s1 = 92"
    using transform_total [OF lr _ assms(2) x] by auto
  from finalize_total [OF l1] t show ?thesis by (simp add: hash_session_def)
qed
lemma poke_append: "length b = length c \<Longrightarrow> poke (a @ b) (length a) c = a @ c"
  by (simp add: poke_def)
lemma poke_middle: "length c = n \<Longrightarrow> poke (a @ replicate n 0 @ r) (length a) c = a @ c @ r"
  by (simp add: poke_def)
lemma custom6A5DC_loop_rounds:
  assumes "length st = 92" "length seed = len" "len + 4 < 2 ^ 30" "length b4 = 4"
    and "length done = 20 * unat i" "unat i + n < 2 ^ 32"
  shows "\<exists>st' outs. mgf_rounds n i st seed = Some (st', outs) \<and> length outs = 20 * n \<and> length st' = 92 \<and>
     custom6A5DC_loop n i st (seed @ b4) len (done @ replicate (20 * n) 0) = Some (st', done @ outs)"
  using assms
proof (induction n arbitrary: i st b4 "done")
  case 0
  then show ?case by simp
next
  case (Suc n)
  let ?m = "seed @ int_bytes (mtpz_bswap32 i)"
  have m: "store32 (seed @ b4) len (mtpz_bswap32 i) = ?m"
    using Suc.prems poke_append [of b4 "int_bytes (mtpz_bswap32 i)" seed]
    by (simp add: store32_def length_int_bytes)
  have lm: "length ?m = len + 4" using Suc.prems by (simp add: length_int_bytes)
  obtain s1 out where h: "hash_session st ?m = Some (s1, out)" and l1: "length s1 = 92"
    and lo: "length out = 20"
    using hash_session_total [of st ?m] Suc.prems lm by auto
  have ui: "unat (i + 1) = unat i + 1"
    using Suc.prems by (simp add: unat_word_ariths)
  have pk: "poke (done @ replicate (20 * Suc n) 0) (unat i * 20) out
            = (done @ out) @ replicate (20 * n) 0"
  proof -
    have "replicate (20 * Suc n) (0::byte) = replicate 20 0 @ replicate (20 * n) 0"
      by (simp add: replicate_add [symmetric])
    moreover have "unat i * 20 = length done" using Suc.prems by simp
    ultimately show ?thesis using poke_middle [OF lo, of "done" "replicate (20 * n) 0"] by simp
  qed
  obtain s2 outs where r: "mgf_rounds n (i + 1) s1 seed = Some (s2, outs)" and lo2: "length outs = 20 * n"
    and l2: "length s2 = 92"
    and c: "custom6A5DC_loop n (i + 1) s1 (seed @ int_bytes (mtpz_bswap32 i)) len ((done @ out) @ replicate (20 * n) 0)
            = Some (s2, (done @ out) @ outs)"
    using Suc.IH [of s1 "int_bytes (mtpz_bswap32 i)" "done @ out" "i + 1"] Suc.prems l1 lo ui
    by (auto simp: length_int_bytes)
  have hs: "mtpz_hash_transform_hash (mtpz_hash_reset_state st) ?m (word_of_nat (len + 4)) \<bind> mtpz_hash_finalize_hash
            = Some (s1, out)"
    using h unfolding hash_session_def lm .
  have "custom6A5DC_loop (Suc n) i st (seed @ b4) len (done @ replicate (20 * Suc n) 0) = Some (s2, done @ out @ outs)"
    apply (simp only: custom6A5DC_loop.simps Let_def m)
    apply (simp only: bind_assoc [symmetric] hs Option.bind.simps prod.case pk c)
    apply simp
    done
  then show ?case using h r lo lo2 l2 by simp
qed

lemma repl_num: "replicate (numeral k) x = x # replicate (pred_numeral k) x"
  by (simp add: numeral_eq_Suc)
lemma wn: "(word_of_nat (x mod 4294967296) :: u32) = word_of_nat x"
  by (simp add: word_of_nat_eq_iff take_bit_eq_mod)
lemma bn: "(word_of_nat (x mod 256) :: byte) = word_of_nat x"
  by (simp add: word_of_nat_eq_iff take_bit_eq_mod)
lemma pb_norm: "push_bit n (numeral k :: u32) = word_of_nat ((numeral k * 2 ^ n) mod 4294967296)"
  unfolding wn by (simp add: push_bit_eq_mult)
lemma add_norm: "(numeral a :: u32) + numeral b = word_of_nat ((numeral a + numeral b) mod 4294967296)"
  unfolding wn by simp
lemma uc_norm: "(ucast (numeral k :: u32) :: byte) = word_of_nat (unat (numeral k :: u32) mod 256)"
  unfolding bn by (simp only: of_nat_unat)
lemma custom6A5DC_refines:
  assumes "length st = 92" "0 \<le> len" "len \<le> int (length msg)" "len + 4 < 2 ^ 30"
    and "0 \<le> a4" "(a4 div 20 + 1) * 20 < 2 ^ 31"
  shows "\<exists>st' out. mtpz_hash_custom6A5DC st msg len a4 = Some (st', out) \<and>
           mgf_rounds (nat (a4 div 20 + 1)) 0 st (take (nat len) msg) = Some (st', out) \<and>
           length out = 20 * nat (a4 div 20 + 1) \<and> length st' = 92"
proof -
  let ?n = "nat (a4 div 20 + 1)"
  let ?seed = "take (nat len) msg"
  have ls: "length ?seed = nat len" using assms by simp
  have v5: "poke (replicate (nat (len + 4)) 0) 0 ?seed = ?seed @ replicate 4 (0::byte)"
    using assms ls by (simp add: poke_def nat_add_distrib)
  have v13: "replicate (nat ((a4 div 20 + 1) * 20)) (0::byte) = replicate (20 * ?n) 0"
    using assms by (simp add: nat_mult_distrib mult.commute)
  have n32: "unat (0::u32) + ?n < 2 ^ 32" using assms by simp
  have l4: "nat len + 4 < 2 ^ 30" using assms by simp
  obtain st' outs where r: "mgf_rounds ?n 0 st ?seed = Some (st', outs)" and lo: "length outs = 20 * ?n"
    and l': "length st' = 92"
    and c: "custom6A5DC_loop ?n 0 st (?seed @ replicate 4 0) (nat len) ([] @ replicate (20 * ?n) 0)
            = Some (st', [] @ outs)"
    using custom6A5DC_loop_rounds [OF assms(1) ls l4, of "replicate 4 0" "[]" 0 ?n] n32 by auto
  have na: "\<not> a4 < 0" using assms by simp
  have "0 \<le> a4 div 20" using assms by (simp add: pos_imp_zdiv_nonneg_iff)
  then have g: "\<not> (a4 div 20 + 1 < 0 \<or> len < 0 \<or> 2 ^ 31 \<le> (a4 div 20 + 1) * 20 \<or> 2 ^ 31 \<le> len + 4
      \<or> int (length msg) < len)"
    using assms by simp
  have "mtpz_hash_custom6A5DC st msg len a4 = Some (st', outs)"
    unfolding mtpz_hash_custom6A5DC_def Let_def
    using c by (simp only: na g if_False v5 v13 append_Nil)
  then show ?thesis using r lo l' by simp
qed
lemma length_init_state: "length mtpz_hash_init_state = 92"
  by (simp add: mtpz_hash_init_state_def)


lemma length_inv_mix_round: "off + 32 \<le> length e \<Longrightarrow> length (inv_mix_round e off) = length e"
  by (simp add: inv_mix_round_def Let_def length_store32)
lemma inv_mix_loop_overflow:
  "0 < n \<Longrightarrow> length e < off + 16 * n + 16 \<Longrightarrow> inv_mix_loop n off e = None"
proof (induction n arbitrary: off e)
  case 0
  then show ?case by simp
next
  case (Suc n)
  show ?case
  proof (cases "off + 32 \<le> length e")
    case False
    then show ?thesis by simp
  next
    case True
    then have n: "0 < n" using Suc.prems by (cases n) auto
    have "inv_mix_loop n (off + 16) (inv_mix_round e off) = None"
      using Suc.prems True by (intro Suc.IH n) (simp add: length_inv_mix_round)
    then show ?thesis using True by simp
  qed
qed
lemma length_expand_key_back:
  "length k = ks \<Longrightarrow> 4 + 2 * ks \<le> 484 \<Longrightarrow>
   length (poke (poke (poke (replicate 484 0) 0 [c]) 4 k) (4 + ks) k) = 484"
  by (simp add: length_poke)
lemma length_expand_key_loop: "length (expand_key_loop n key_len r i key) = length key + 4 * n"
  by (induction n arbitrary: r i key) (simp_all add: Let_def)
lemma expand_key_32_undefined:
  assumes "32 \<le> length key"
  shows "mtpz_encryption_expand_key key 32 (cipher_len 32) = None"
proof -
  let ?k = "expand_key_loop ((16 * (14 + 1) - 32) div 4) 32 0 32 (take 32 key)"
  have lk: "length ?k = 240" using assms by (simp add: length_expand_key_loop)
  have inner: "mtpz_encryption_expand_key_inner key 32 = Some (Some ?k, 240)"
    using assms by (simp add: mtpz_encryption_expand_key_inner_def)
  let ?buf = "poke (poke (poke (replicate 484 0) 0 [word_of_int (32 mod 0xFF)]) 4 ?k) (4 + 240) ?k"
  have lb: "length ?buf = 484" using lk by (intro length_expand_key_back) simp_all
  have "inv_mix_loop 31 0xF4 ?buf = None"
    by (rule inv_mix_loop_overflow) (use lb in simp_all)
  then show ?thesis
    by (simp add: mtpz_encryption_expand_key_def inner cipher_len_def mtpz_encryption_inv_mix_columns_def)
qed

lemma hex_digit_not_space: "hex_digit c = Some d \<Longrightarrow> \<not> is_space c"
  by (auto simp: hex_digit_def is_space_def Let_def split: if_splits)
lemma sscanf_2x_pair:
  "hex_digit c1 = Some d1 \<Longrightarrow> hex_digit c2 = Some d2 \<Longrightarrow> sscanf_2x (c1 # c2 # r) = Some (word_of_nat (16 * d1 + d2))"
  by (simp add: sscanf_2x_def hex_digit_not_space)
lemma hex_pairs_length: "hex_pairs s = Some bs \<Longrightarrow> length s = 2 * length bs"
  by (induction s arbitrary: bs rule: hex_pairs.induct) (auto split: option.splits)
lemma hex_to_bytes_loop_pairs:
  "hex_pairs r = Some bs \<Longrightarrow> length pre = 2 * length dn \<Longrightarrow>
   hex_to_bytes_loop (length bs) (pre @ r) (length pre) (map Some dn @ replicate (length bs) None)
   = map Some (dn @ bs)"
proof (induction r arbitrary: bs pre dn rule: hex_pairs.induct)
  case 1
  then show ?case by simp
next
  case (2 c)
  then show ?case by simp
next
  case (3 c1 c2 r)
  from "3.prems" obtain d1 d2 bs' where d: "hex_digit c1 = Some d1" "hex_digit c2 = Some d2"
    and r: "hex_pairs r = Some bs'" and bs: "bs = word_of_nat (16 * d1 + d2) # bs'"
    by (auto split: option.splits)
  let ?b = "word_of_nat (16 * d1 + d2) :: byte"
  have ih: "hex_to_bytes_loop (length bs') ((pre @ [c1, c2]) @ r) (length (pre @ [c1, c2]))
              (map Some (dn @ [?b]) @ replicate (length bs') None) = map Some ((dn @ [?b]) @ bs')"
    using "3.IH" [OF r, of "pre @ [c1, c2]" "dn @ [?b]"] "3.prems" by simp
  have upd: "(map Some dn @ replicate (length bs) None)[length pre div 2 := Some ?b]
             = map Some (dn @ [?b]) @ replicate (length bs') None"
    using "3.prems" bs by (simp add: list_update_append)
  have "hex_to_bytes_loop (length bs) (pre @ c1 # c2 # r) (length pre) (map Some dn @ replicate (length bs) None)
        = hex_to_bytes_loop (length bs') (pre @ c1 # c2 # r) (length pre + 2)
            ((map Some dn @ replicate (length bs) None)[length pre div 2 := Some ?b])"
    using bs by (simp add: sscanf_2x_pair [OF d])
  also have "\<dots> = map Some ((dn @ [?b]) @ bs')"
    using ih unfolding upd by simp
  finally show ?case using bs by simp
qed
lemma hex_to_bytes_pairs: "hex_pairs s = Some bs \<Longrightarrow> hex_to_bytes s (length s) = Some (map Some bs)"
  using hex_to_bytes_loop_pairs [of s bs "[]" "[]"] hex_pairs_length [of s bs]
  by (simp add: hex_to_bytes_def)
lemma hex_to_bytes_Some_iff: "(\<exists>b. hex_to_bytes s n = Some b) = even n"
  by (auto simp: hex_to_bytes_def)
lemma loaddata_success:
  assumes "mtpz_loaddata home fopen = Some (0, g)"
  shows "\<exists>h fdata e k m p c. home = Some h \<and> fopen (h @ ''/.mtpz-data'') = Some fdata \<and>
     secrets_lines fdata = Some (e, k, m, p, c) \<and> even (length k) \<and> even (length c)"
proof -
  from assms obtain h fdata e r1 k r2 kb m r3 p r4 c r5 cb where
    f: "home = Some h" "fopen (h @ ''/.mtpz-data'') = Some fdata"
      "fgets_strip 8 fdata = Some (Some e, r1)" "fgets_strip 35 r1 = Some (Some k, r2)"
      "hex_to_bytes k (length k) = Some kb"
      "fgets_strip 260 r2 = Some (Some m, r3)" "fgets_strip 260 r3 = Some (Some p, r4)"
      "fgets_strip 1260 r4 = Some (Some c, r5)" "hex_to_bytes c (length c) = Some cb"
    by (auto simp: mtpz_loaddata_def Let_def split: option.splits prod.splits)
  have "secrets_lines fdata = Some (e, k, m, p, c)"
    using f by (simp add: secrets_lines_def read_line_def)
  moreover have "even (length k)" "even (length c)"
    using f hex_to_bytes_Some_iff by blast+
  ultimately show ?thesis using f by blast
qed
lemma loaddata_wellformed:
  "home = Some h \<Longrightarrow> fopen (h @ ''/.mtpz-data'') = Some fdata \<Longrightarrow>
   secrets_lines fdata = Some (e, k, m, p, c) \<Longrightarrow> hex_pairs k = Some kb \<Longrightarrow> hex_pairs c = Some cb \<Longrightarrow>
   mtpz_loaddata home fopen =
     Some (0, \<lparr>MTPZ_ENCRYPTION_KEY = Some (map Some kb), MTPZ_PUBLIC_EXPONENT = Some e, MTPZ_MODULUS = Some m,
          MTPZ_PRIVATE_KEY = Some p, MTPZ_CERTIFICATES = Some (map Some cb)\<rparr>)"
  by (auto simp: mtpz_loaddata_def secrets_lines_def read_line_def hex_to_bytes_pairs Let_def no_data_def
           split: option.splits prod.splits Option.bind_splits)

lemmas ekl_num = expand_key_loop.simps(2) [of "pred_numeral k", folded numeral_eq_Suc] for k
lemmas iml_num = inv_mix_loop.simps(2) [of "pred_numeral k", folded numeral_eq_Suc] for k
lemmas er_num = encrypt_rounds.simps(2) [of "pred_numeral k", folded numeral_eq_Suc] for k
lemmas dr_num = decrypt_rounds.simps(2) [of "pred_numeral k", folded numeral_eq_Suc] for k
lemmas aes_eval = ekl_num iml_num er_num dr_num Let_def
  mtpz_encryption_expand_key_def mtpz_encryption_expand_key_inner_def mtpz_encryption_inv_mix_columns_def
  inv_mix_round_def inv_mix_word_def add_round_key_def encrypt_tables_def decrypt_tables_def
  FT3_Bytes1_def pack_bytes_def encrypt_last_def decrypt_last_def invsbox_at_def seed_words_def data_bytes_def
  mtpz_encryption_encrypt_custom_def mtpz_encryption_decrypt_custom_def swapped_word_def
  MTPZ_ENCRYPTIONLOBYTE_def MTPZ_ENCRYPTIONBYTE1_def MTPZ_ENCRYPTIONBYTE2_def MTPZ_ENCRYPTIONBYTE3_def
  load32_def store32_def poke_def int_bytes_def mtpz_bswap32_def upt_rec repl_num pb_norm uc_norm
  mtpz_aes_rcon_def mtpz_aes_sbox_def mtpz_aes_invsbox_def mtpz_aes_ft1_def mtpz_aes_ft2_def mtpz_aes_ft3_def
  mtpz_aes_ft4_def mtpz_aes_rt1_def mtpz_aes_rt2_def mtpz_aes_rt3_def mtpz_aes_rt4_def
  mtpz_aes_gb9_def mtpz_aes_gb11_def mtpz_aes_gb13_def mtpz_aes_gb14_def


section \<open>Claims about the hash engine\<close>

text \<open>
  C2 (as the code has it). For every seed of \<open>len\<close> bytes and every \<open>a4 \<ge> 0\<close> whose
  sizes fit an int, \<open>mtpz_hash_custom6A5DC\<close> returns, and what it returns is what
  \<open>a4 div 20 + 1\<close> rounds of reset, absorb \<open>seed || bswap32(i)\<close>, finalise produce,
  \<open>i = 0, 1, \<dots>\<close>, each round filling the next 20 bytes: a buffer of exactly
  \<open>(a4 div 20 + 1) * 20\<close> bytes. The number of rounds is \<open>a4 div 20 + 1\<close>, which is
  the ceiling of \<open>a4 / 20\<close> only when 20 does not divide \<open>a4\<close>.
\<close>

theorem custom6A5DC_rounds:
  assumes "length st = 92" "0 \<le> len" "len \<le> int (length msg)" "len + 4 < 2 ^ 30"
    and "0 \<le> a4" "(a4 div 20 + 1) * 20 < 2 ^ 31"
  shows "\<exists>st' out. mtpz_hash_custom6A5DC st msg len a4 = Some (st', out) \<and>
           mgf_rounds (nat (a4 div 20 + 1)) 0 st (take (nat len) msg) = Some (st', out) \<and>
           length out = 20 * nat (a4 div 20 + 1)"
  using custom6A5DC_refines [OF assms] by blast

theorem custom6A5DC_rounds_witness:
  "length mtpz_hash_init_state = 92 \<and> (0::int) \<le> 3 \<and> (3::int) \<le> int (length [1, 2, 3 :: byte])
   \<and> (3::int) + 4 < 2 ^ 30 \<and> (0::int) \<le> 107 \<and> ((107::int) div 20 + 1) * 20 < 2 ^ 31
   \<and> (\<exists>st' out. mtpz_hash_custom6A5DC mtpz_hash_init_state [1, 2, 3] 3 107 = Some (st', out) \<and>
           mgf_rounds (nat (107 div 20 + 1)) 0 mtpz_hash_init_state (take (nat 3) [1, 2, 3]) = Some (st', out) \<and>
           length out = 20 * nat (107 div 20 + 1))"
  using custom6A5DC_rounds [of mtpz_hash_init_state 3 "[1, 2, 3]" 107]
  by (simp add: length_init_state)

text \<open>
  C2 as stated fails where 20 divides the requested length: for \<open>a4 = 20\<close> the claim
  promises \<open>\<lceil>20 / 20\<rceil> * 20 = 20\<close> bytes, the code returns 40.
\<close>

theorem custom6A5DC_ceiling_counterexample:
  "map_option (\<lambda>r. length (snd r)) (mtpz_hash_custom6A5DC mtpz_hash_init_state [] 0 20) = Some 40
   \<and> (40::nat) \<noteq> ((20 + 19) div 20) * 20"
  using custom6A5DC_refines [of mtpz_hash_init_state 0 "[]" 20]
  by (auto simp: length_init_state)






section \<open>Claims about the AES engine\<close>

text \<open>
  C4 at the failing input. The round count that both callers compute is 10 for a
  16-byte key and 12 for a 24-byte key, but 32, not 14, for a 32-byte key. With that
  count \<open>mtpz_encryption_expand_key\<close> stores 32 in the round byte and runs the
  inverse-mix-columns pass for 31 rounds from offset \<open>0xF4\<close>, past the end of its
  484-byte buffer: the expansion of a 32-byte key is undefined.
\<close>

theorem cipher_len_32_byte_key:
  "cipher_len 16 = 10 \<and> cipher_len 24 = 12 \<and> cipher_len 32 = 32
   \<and> mtpz_encryption_expand_key (replicate 32 0) 32 (cipher_len 32) = None
   \<and> mtpz_encryption_cipher_advanced (replicate 32 0) 32 (replicate 16 0) 16 True = None"
  using expand_key_32_undefined [of "replicate 32 0"]
  by (simp add: cipher_len_def mtpz_encryption_cipher_advanced_def)

text \<open>
  C10. When \<open>hash\<close> is \<open>NULL\<close> or \<open>hash_length\<close> is not 16,
  \<open>mtpz_encryption_encrypt_mac\<close> returns at once and the output buffer is what it was.
\<close>

theorem encrypt_mac_early_return:
  "hash = None \<or> hash_length \<noteq> 16 \<Longrightarrow>
   mtpz_encryption_encrypt_mac hash hash_length seed seed_len out = Some out"
  by (auto simp: mtpz_encryption_encrypt_mac_def split: option.splits)

theorem encrypt_mac_early_return_witness:
  "(Some (replicate 24 (0::byte)) = None \<or> (24::nat) \<noteq> 16) \<and>
   mtpz_encryption_encrypt_mac (Some (replicate 24 0)) 24 [1, 2, 3, 4] 4 (replicate 16 7) = Some (replicate 16 7)"
  using encrypt_mac_early_return [of "Some (replicate 24 0)" 24 "[1, 2, 3, 4]" 4 "replicate 16 7"]
  by simp

section \<open>Claims about the secrets loader\<close>

text \<open>
  C3 (as the code has it). \<open>mtpz_loaddata\<close> returns 0 only when \<open>HOME\<close> is set, the
  file opens, all five lines can be read, and the two lines that it decodes (the
  encryption key and the certificates) have even length. And when, besides, these two
  lines are made of hexadecimal digit pairs only, it returns 0 and the two buffers hold
  the bytes of the pairs, the three other lines being stored as they are. The public
  exponent, the modulus and the private key are not decoded, so nothing is required of
  their length or their characters.
\<close>

theorem loaddata_returns_0:
  "(\<forall>g. mtpz_loaddata home fopen = Some (0, g) \<longrightarrow>
      (\<exists>h fdata e k m p c. home = Some h \<and> fopen (h @ ''/.mtpz-data'') = Some fdata \<and>
         secrets_lines fdata = Some (e, k, m, p, c) \<and> even (length k) \<and> even (length c)))
   \<and> (\<forall>h fdata e k m p c kb cb.
         home = Some h \<and> fopen (h @ ''/.mtpz-data'') = Some fdata \<and>
         secrets_lines fdata = Some (e, k, m, p, c) \<and> hex_pairs k = Some kb \<and> hex_pairs c = Some cb \<longrightarrow>
         mtpz_loaddata home fopen =
           Some (0, \<lparr>MTPZ_ENCRYPTION_KEY = Some (map Some kb), MTPZ_PUBLIC_EXPONENT = Some e,
                MTPZ_MODULUS = Some m, MTPZ_PRIVATE_KEY = Some p,
                MTPZ_CERTIFICATES = Some (map Some cb)\<rparr>))"
  using loaddata_success [of home fopen] loaddata_wellformed [of home _ fopen]
  by blast

theorem loaddata_returns_0_witness:
  "secrets_lines (''10001'' @ [CHR 0x0A] @ ''0aFf'' @ [CHR 0x0A] @ ''c3'' @ [CHR 0x0A] @ ''0b'' @ [CHR 0x0A] @ ''0102'')
     = Some (''10001'', ''0aFf'', ''c3'', ''0b'', ''0102'')
   \<and> hex_pairs ''0aFf'' = Some [10, 255] \<and> hex_pairs ''0102'' = Some [1, 2]
   \<and> mtpz_loaddata (Some ''/home/u'')
        (\<lambda>p. if p = ''/home/u/.mtpz-data''
              then Some (''10001'' @ [CHR 0x0A] @ ''0aFf'' @ [CHR 0x0A] @ ''c3'' @ [CHR 0x0A] @ ''0b'' @ [CHR 0x0A] @ ''0102'')
              else None)
       = Some (0, \<lparr>MTPZ_ENCRYPTION_KEY = Some [Some 10, Some 255], MTPZ_PUBLIC_EXPONENT = Some ''10001'',
              MTPZ_MODULUS = Some ''c3'', MTPZ_PRIVATE_KEY = Some ''0b'',
              MTPZ_CERTIFICATES = Some [Some 1, Some 2]\<rparr>)"
proof -
  let ?f = "''10001'' @ [CHR 0x0A] @ ''0aFf'' @ [CHR 0x0A] @ ''c3'' @ [CHR 0x0A] @ ''0b'' @ [CHR 0x0A] @ ''0102''"
  let ?fopen = "\<lambda>p. if p = ''/home/u/.mtpz-data'' then Some ?f else None"
  have l: "secrets_lines ?f = Some (''10001'', ''0aFf'', ''c3'', ''0b'', ''0102'')"
    by (simp add: secrets_lines_def read_line_def fgets_strip_def fgets_def Let_def)
  have k: "hex_pairs ''0aFf'' = Some [10, 255]" by (simp add: hex_digit_def)
  have c: "hex_pairs ''0102'' = Some [1, 2]" by (simp add: hex_digit_def)
  have o: "?fopen (''/home/u'' @ ''/.mtpz-data'') = Some ?f" by simp
  from loaddata_returns_0 [of "Some ''/home/u''" ?fopen, THEN conjunct2, rule_format,
      of "''/home/u''" ?f "''10001''" "''0aFf''" "''c3''" "''0b''" "''0102''" "[10, 255]" "[1, 2]"] l k c o
  have r: "mtpz_loaddata (Some ''/home/u'') ?fopen
       = Some (0, \<lparr>MTPZ_ENCRYPTION_KEY = Some [Some 10, Some 255], MTPZ_PUBLIC_EXPONENT = Some ''10001'',
              MTPZ_MODULUS = Some ''c3'', MTPZ_PRIVATE_KEY = Some ''0b'',
              MTPZ_CERTIFICATES = Some [Some 1, Some 2]\<rparr>)"
    by simp
  show ?thesis using l k c r by simp
qed

text \<open>
  C3 as stated fails on the lines that are not decoded: a file whose exponent and
  modulus lines have odd length and whose private-key line holds no hexadecimal digit,
  the key and certificate lines being well-formed, is loaded with return value 0.
\<close>

theorem loaddata_unchecked_lines_counterexample:
  "map_option fst (mtpz_loaddata (Some ''/home/u'')
     (\<lambda>p. if p = ''/home/u/.mtpz-data''
           then Some (''10001'' @ [CHR 0x0A] @ ''0aff'' @ [CHR 0x0A] @ ''abc'' @ [CHR 0x0A] @ ''xyz'' @ [CHR 0x0A] @ ''0102'')
           else None)) = Some 0
   \<and> secrets_lines (''10001'' @ [CHR 0x0A] @ ''0aff'' @ [CHR 0x0A] @ ''abc'' @ [CHR 0x0A] @ ''xyz'' @ [CHR 0x0A] @ ''0102'')
       = Some (''10001'', ''0aff'', ''abc'', ''xyz'', ''0102'')
   \<and> hex_pairs ''0aff'' = Some [10, 255] \<and> hex_pairs ''0102'' = Some [1, 2]
   \<and> odd (length ''10001'') \<and> odd (length ''abc'') \<and> hex_pairs ''xyz'' = None"
  by (simp add: mtpz_loaddata_def secrets_lines_def read_line_def fgets_strip_def fgets_def hex_to_bytes_def
        Let_def hex_digit_def sscanf_2x_def is_space_def)

end
